theory Spec2Isabelle
  imports Main
begin

section \<open>The EventSub websocket client of conn.go\<close>

text \<open>
  The development embeds the connection and dispatch engine of \<^verbatim>\<open>conn.go\<close>:
  \<^verbatim>\<open>callFunc\<close>, \<^verbatim>\<open>parseBaseMessage\<close>, \<^verbatim>\<open>handleMessage\<close>,
  \<^verbatim>\<open>handleNotification\<close>, \<^verbatim>\<open>reconnect\<close>, \<^verbatim>\<open>dial\<close>, \<^verbatim>\<open>Close\<close> and
  \<^verbatim>\<open>ConnectWithContext\<close>.

  Everything the client does to the outside is recorded, in program order, in a list of
  effects: a handler started with \<^verbatim>\<open>go\<close>, a synchronous call of the raw-event hook or of
  the error sink, a call of \<^verbatim>\<open>json.Unmarshal\<close> with the bytes it is given, a dial, and
  the goroutine that \<^verbatim>\<open>reconnect\<close> starts. A callback is an opaque function value of
  the application; the model records that it is called and with what, and assumes that a
  synchronous callback returns without touching the client.
\<close>

subsection \<open>Data\<close>

type_synonym bytes = string
type_synonym callback = nat
type_synonym conn = nat
type_synonym go_context = nat

text \<open>
  Modelled from the spec: the message structs are declared outside \<^verbatim>\<open>conn.go\<close>.
  Each record names the fields that \<^verbatim>\<open>conn.go\<close> reads (\<^verbatim>\<open>Metadata.MessageType\<close>,
  \<^verbatim>\<open>Payload.Subscription.Type\<close>, \<^verbatim>\<open>Payload.Event\<close>, \<^verbatim>\<open>Payload.Session.ReconnectUrl\<close>)
  and keeps the rest of a decoded value as text.
\<close>

record MessageMetadata =
  MessageID :: string
  MessageType :: string
  MessageTimestamp :: string

record PayloadSubscription =
  ps_ID :: string
  ps_Type :: string
  ps_Version :: string
  ps_Condition :: string

record WelcomeMessage =
  wm_Metadata :: MessageMetadata
  wm_Payload :: string

record KeepAliveMessage =
  km_Metadata :: MessageMetadata
  km_Payload :: string

record NotificationMessage =
  nm_Metadata :: MessageMetadata
  nm_Subscription :: PayloadSubscription
  nm_Event :: string

record ReconnectMessage =
  rm_Metadata :: MessageMetadata
  rm_ReconnectUrl :: string
  rm_Session :: string

record RevokeMessage =
  vm_Metadata :: MessageMetadata
  vm_Payload :: string

text \<open>The event types that the type switch of \<^verbatim>\<open>handleNotification\<close> lists, in its order.\<close>

datatype event_type =
    EventChannelUpdate | EventChannelFollow | EventChannelSubscribe | EventChannelSubscriptionEnd
  | EventChannelSubscriptionGift | EventChannelSubscriptionMessage | EventChannelCheer
  | EventChannelRaid | EventChannelBan | EventChannelUnban | EventChannelModeratorAdd
  | EventChannelModeratorRemove | EventChannelChannelPointsCustomRewardAdd
  | EventChannelChannelPointsCustomRewardUpdate | EventChannelChannelPointsCustomRewardRemove
  | EventChannelChannelPointsCustomRewardRedemptionAdd
  | EventChannelChannelPointsCustomRewardRedemptionUpdate | EventChannelPollBegin
  | EventChannelPollProgress | EventChannelPollEnd | EventChannelPredictionBegin
  | EventChannelPredictionProgress | EventChannelPredictionLock | EventChannelPredictionEnd
  | EventDropEntitlementGrant | EventExtensionBitsTransactionCreate | EventChannelGoalBegin
  | EventChannelGoalProgress | EventChannelGoalEnd | EventChannelHypeTrainBegin
  | EventChannelHypeTrainProgress | EventChannelHypeTrainEnd | EventStreamOnline
  | EventStreamOffline | EventUserAuthorizationGrant | EventUserAuthorizationRevoke
  | EventUserUpdate | EventChannelCharityCampaignDonate | EventChannelCharityCampaignProgress
  | EventChannelCharityCampaignStart | EventChannelCharityCampaignStop
  | EventChannelShieldModeBegin | EventChannelShieldModeEnd | EventChannelShoutoutCreate
  | EventChannelShoutoutReceive | EventChannelModerate

text \<open>
  A value of Go's \<^verbatim>\<open>any\<close> as the two type switches see it: \<^verbatim>\<open>nil\<close>, a pointer to one
  of the message structs, a pointer to the local \<^verbatim>\<open>BaseMessage\<close> of
  \<^verbatim>\<open>parseBaseMessage\<close>, a pointer to one of the listed event types (the decoded event
  kept as text), or a pointer to a type that neither switch lists.
\<close>

datatype any =
    NilValue
  | PBaseMessage MessageMetadata
  | PWelcomeMessage WelcomeMessage
  | PKeepAliveMessage KeepAliveMessage
  | PNotificationMessage NotificationMessage
  | PReconnectMessage ReconnectMessage
  | PRevokeMessage RevokeMessage
  | PEvent event_type string
  | POther string string

text \<open>
  An error of the transport, by what the code asks of it: whether
  \<^verbatim>\<open>errors.Is(err, context.Canceled)\<close> holds, and the code of the
  \<^verbatim>\<open>websocket.CloseError\<close> in its chain, if \<^verbatim>\<open>errors.As\<close> finds one.
\<close>

record ws_error =
  is_canceled :: bool
  close_code :: "int option"
  ws_text :: string

definition StatusNormalClosure :: int where
  "StatusNormalClosure = 1000"

definition CloseStatus :: "ws_error \<Rightarrow> int" where
  "CloseStatus e = (case close_code e of None \<Rightarrow> - 1 | Some code \<Rightarrow> code)"

text \<open>The errors of \<^verbatim>\<open>conn.go\<close>, one constructor for each \<^verbatim>\<open>fmt.Errorf\<close> format.\<close>

datatype error =
    ErrConnClosed
  | ErrNilOnWelcome
  | JsonError string
  | TransportError ws_error
  | CouldNotUnmarshalBase error
  | UnknownMessageType string bytes
  | CouldNotUnmarshalMessage string error
  | CouldNotHandleNotification error
  | CouldNotHandleReconnect error
  | UnhandledMessage any
  | CouldNotDialToReconnect
  | CouldNotDial string error
  | CouldNotGetEventJson error
  | UnknownSubscriptionType string
  | CouldNotUnmarshalEvent string any error
  | UnknownEventType string
  | ReconnectCouldNotRead error
  | ReconnectCouldNotParse error
  | ReconnectNoWelcome string
  | CouldNotReadMessage error
  | CouldNotClose error

datatype effect =
    Go callback any
  | CallRawEvent callback bytes MessageMetadata PayloadSubscription
  | CallOnError callback error
  | Unmarshal bytes any
  | Dial "go_context option" string
  | GoReconnect conn

datatype 'a outcome = Return 'a | Panic

text \<open>
  The \<^verbatim>\<open>Client\<close> struct. The forty-six fields \<^verbatim>\<open>onEventChannelUpdate\<close> ...
  \<^verbatim>\<open>onEventChannelModerate\<close> are the one field \<open>onEvent\<close>, indexed by the event type
  each of them takes. A callback field holds \<open>None\<close> for \<^verbatim>\<open>nil\<close>. The channel
  \<^verbatim>\<open>reconnected\<close> is unbuffered and holds no data.
\<close>

record Client =
  Address :: string
  ws :: "conn option"
  connected :: bool
  ctx :: "go_context option"
  reconnecting :: bool
  onError :: "callback option"
  onWelcome :: "callback option"
  onKeepAlive :: "callback option"
  onNotification :: "callback option"
  onReconnect :: "callback option"
  onRevoke :: "callback option"
  onRawEvent :: "callback option"
  onEvent :: "event_type \<Rightarrow> callback option"

text \<open>
  What \<^verbatim>\<open>conn.go\<close> uses and does not define: the decoders of \<^verbatim>\<open>encoding/json\<close> for
  each target type, \<^verbatim>\<open>MarshalJSON\<close> of the event field, and the table
  \<^verbatim>\<open>subMetadata\<close>, of which the code reads the field \<^verbatim>\<open>EventGen\<close> (\<open>None\<close> for a
  \<^verbatim>\<open>nil\<close> constructor, otherwise the fresh value the constructor returns).
\<close>

record EventMetadata =
  EventGen :: "any option"

record externals =
  decodeBase :: "bytes \<Rightarrow> string + MessageMetadata"
  decodeWelcome :: "bytes \<Rightarrow> string + WelcomeMessage"
  decodeKeepAlive :: "bytes \<Rightarrow> string + KeepAliveMessage"
  decodeNotification :: "bytes \<Rightarrow> string + NotificationMessage"
  decodeReconnect :: "bytes \<Rightarrow> string + ReconnectMessage"
  decodeRevoke :: "bytes \<Rightarrow> string + RevokeMessage"
  decodeEvent :: "event_type \<Rightarrow> bytes \<Rightarrow> string + string"
  decodeOther :: "string \<Rightarrow> bytes \<Rightarrow> string + string"
  MarshalJSON :: "string \<Rightarrow> error + bytes"
  subMetadata :: "string \<rightharpoonup> EventMetadata"

subsection \<open>Decoding\<close>

definition zeroMetadata :: MessageMetadata where
  "zeroMetadata = \<lparr>MessageID = [], MessageType = [], MessageTimestamp = []\<rparr>"

definition zeroWelcome :: WelcomeMessage where
  "zeroWelcome = \<lparr>wm_Metadata = zeroMetadata, wm_Payload = []\<rparr>"

definition zeroKeepAlive :: KeepAliveMessage where
  "zeroKeepAlive = \<lparr>km_Metadata = zeroMetadata, km_Payload = []\<rparr>"

definition zeroNotification :: NotificationMessage where
  "zeroNotification =
     \<lparr>nm_Metadata = zeroMetadata,
      nm_Subscription = \<lparr>ps_ID = [], ps_Type = [], ps_Version = [], ps_Condition = []\<rparr>,
      nm_Event = []\<rparr>"

definition zeroReconnect :: ReconnectMessage where
  "zeroReconnect = \<lparr>rm_Metadata = zeroMetadata, rm_ReconnectUrl = [], rm_Session = []\<rparr>"

definition zeroRevoke :: RevokeMessage where
  "zeroRevoke = \<lparr>vm_Metadata = zeroMetadata, vm_Payload = []\<rparr>"

text \<open>
  \<^verbatim>\<open>messageTypeMap\<close>: each entry is \<^verbatim>\<open>zeroPtrGen[T]()\<close>, whose call returns
  \<^verbatim>\<open>new(T)\<close>; the map gives that fresh value.
\<close>

definition messageTypeMap :: "string \<rightharpoonup> any" where
  "messageTypeMap = map_of
     [(''session_welcome'', PWelcomeMessage zeroWelcome),
      (''session_keepalive'', PKeepAliveMessage zeroKeepAlive),
      (''notification'', PNotificationMessage zeroNotification),
      (''session_reconnect'', PReconnectMessage zeroReconnect),
      (''revocation'', PRevokeMessage zeroRevoke)]"

text \<open>
  \<^verbatim>\<open>json.Unmarshal(data, v)\<close>: the decoder is chosen by the type of the target and the
  result has the type of the target; a \<^verbatim>\<open>nil\<close> target is an error. Every target in
  \<^verbatim>\<open>conn.go\<close> is freshly allocated, so the decoders do not read it.
\<close>

definition decoded :: "('a \<Rightarrow> any) \<Rightarrow> string + 'a \<Rightarrow> error + any" where
  "decoded mk r = (case r of Inl e \<Rightarrow> Inl (JsonError e) | Inr v \<Rightarrow> Inr (mk v))"

fun json_Unmarshal :: "externals \<Rightarrow> bytes \<Rightarrow> any \<Rightarrow> error + any" where
  "json_Unmarshal x data NilValue = Inl (JsonError ''json: Unmarshal(nil)'')"
| "json_Unmarshal x data (PBaseMessage _) = decoded PBaseMessage (decodeBase x data)"
| "json_Unmarshal x data (PWelcomeMessage _) = decoded PWelcomeMessage (decodeWelcome x data)"
| "json_Unmarshal x data (PKeepAliveMessage _) = decoded PKeepAliveMessage (decodeKeepAlive x data)"
| "json_Unmarshal x data (PNotificationMessage _) =
     decoded PNotificationMessage (decodeNotification x data)"
| "json_Unmarshal x data (PReconnectMessage _) = decoded PReconnectMessage (decodeReconnect x data)"
| "json_Unmarshal x data (PRevokeMessage _) = decoded PRevokeMessage (decodeRevoke x data)"
| "json_Unmarshal x data (PEvent t _) = decoded (PEvent t) (decodeEvent x t data)"
| "json_Unmarshal x data (POther n _) = decoded (POther n) (decodeOther x n data)"

text \<open>\<^verbatim>\<open>callFunc\<close>: a handler that is set is started with \<^verbatim>\<open>go\<close>; \<^verbatim>\<open>nil\<close> does nothing.\<close>

definition callFunc :: "callback option \<Rightarrow> any \<Rightarrow> effect list" where
  "callFunc f v = (case f of None \<Rightarrow> [] | Some g \<Rightarrow> [Go g v])"

text \<open>
  A call of the error sink, \<^verbatim>\<open>c.onError(err)\<close>: the field is called without a
  \<^verbatim>\<open>nil\<close> check, and calling a \<^verbatim>\<open>nil\<close> function value panics.
\<close>

definition callOnError :: "Client \<Rightarrow> error \<Rightarrow> effect list \<times> unit outcome" where
  "callOnError c err =
     (case onError c of None \<Rightarrow> ([], Panic) | Some f \<Rightarrow> ([CallOnError f err], Return ()))"

definition parseBaseMessage :: "externals \<Rightarrow> bytes \<Rightarrow> effect list \<times> (error + MessageMetadata)" where
  "parseBaseMessage x data =
     ([Unmarshal data (PBaseMessage zeroMetadata)],
      (case decodeBase x data of
         Inl e \<Rightarrow> Inl (CouldNotUnmarshalBase (JsonError e))
       | Inr m \<Rightarrow> Inr m))"

subsection \<open>The transports\<close>

text \<open>
  The websocket library is outside the program. A transport is what the code can see of a
  \<^verbatim>\<open>*websocket.Conn\<close>: the results its successive \<^verbatim>\<open>Read\<close>s give while it is open (an
  error, or the bytes of a frame), the close requests it has received (code and reason),
  what \<^verbatim>\<open>Close\<close> answers, and the error a \<^verbatim>\<open>Read\<close> gives once it has been closed
  from this side. The world holds the transport behind every \<open>conn\<close> and the answer of
  every \<^verbatim>\<open>websocket.Dial\<close>, by its number and address; the \<open>conn\<close> a dial returns is
  the number of that dial.
\<close>

record transport =
  inbox :: "(ws_error + bytes) list"
  closes :: "(int \<times> string) list"
  close_answer :: "ws_error option"
  after_close :: ws_error

record world =
  conns :: "conn \<Rightarrow> transport"
  dialed :: nat
  dial_answer :: "nat \<Rightarrow> string \<Rightarrow> ws_error + transport"

text \<open>
  \<^verbatim>\<open>ws.Read(ctx)\<close>: \<open>None\<close> while the read blocks (the transport is open and nothing
  has arrived).
\<close>

definition ws_Read :: "world \<Rightarrow> conn \<Rightarrow> ((ws_error + bytes) \<times> world) option" where
  "ws_Read w k =
     (let t = conns w k in
      if closes t \<noteq> [] then Some (Inl (after_close t), w)
      else case inbox t of
             [] \<Rightarrow> None
           | r # rs \<Rightarrow> Some (r, w\<lparr>conns := (conns w)(k := t\<lparr>inbox := rs\<rparr>)\<rparr>))"

text \<open>\<^verbatim>\<open>ws.Close(code, reason)\<close>: the request reaches the transport, which answers.\<close>

definition ws_Close :: "world \<Rightarrow> conn \<Rightarrow> int \<Rightarrow> string \<Rightarrow> ws_error option \<times> world" where
  "ws_Close w k code reason =
     (let t = conns w k in
      (close_answer t, w\<lparr>conns := (conns w)(k := t\<lparr>closes := closes t @ [(code, reason)]\<rparr>)\<rparr>))"

text \<open>\<^verbatim>\<open>dial\<close>: \<^verbatim>\<open>websocket.Dial(c.ctx, c.Address, nil)\<close>, the error wrapped.\<close>

definition dial :: "Client \<Rightarrow> world \<Rightarrow> effect list \<times> (error + conn) \<times> world" where
  "dial c w =
     (case dial_answer w (dialed w) (Address c) of
        Inl e \<Rightarrow>
          ([Dial (ctx c) (Address c)],
           Inl (CouldNotDial (Address c) (TransportError e)),
           w\<lparr>dialed := Suc (dialed w)\<rparr>)
      | Inr t \<Rightarrow>
          ([Dial (ctx c) (Address c)],
           Inr (dialed w),
           w\<lparr>dialed := Suc (dialed w), conns := (conns w)(dialed w := t\<lparr>closes := []\<rparr>)\<rparr>))"

subsection \<open>The notification router\<close>

text \<open>The type switch of \<^verbatim>\<open>handleNotification\<close>, with its \<^verbatim>\<open>default\<close> branch.\<close>

fun dispatchEvent ::
  "Client \<Rightarrow> PayloadSubscription \<Rightarrow> any \<Rightarrow> effect list \<times> error option outcome" where
  "dispatchEvent c subscription (PEvent t v) = (callFunc (onEvent c t) (PEvent t v), Return None)"
| "dispatchEvent c subscription newEvent =
     (case callOnError c (UnknownEventType (ps_Type subscription)) of
        (tr, Panic) \<Rightarrow> (tr, Panic)
      | (tr, Return _) \<Rightarrow> (tr, Return None))"

definition handleNotification ::
  "externals \<Rightarrow> Client \<Rightarrow> NotificationMessage \<Rightarrow> effect list \<times> error option outcome" where
  "handleNotification x c message =
     (case MarshalJSON x (nm_Event message) of
        Inl err \<Rightarrow> ([], Return (Some (CouldNotGetEventJson err)))
      | Inr data \<Rightarrow>
          (let subscription = nm_Subscription message in
           case subMetadata x (ps_Type subscription) of
             None \<Rightarrow> ([], Return (Some (UnknownSubscriptionType (ps_Type subscription))))
           | Some metadata \<Rightarrow>
               (let raw = (case onRawEvent c of
                             None \<Rightarrow> []
                           | Some f \<Rightarrow> [CallRawEvent f data (nm_Metadata message) subscription])
                in case EventGen metadata of
                     None \<Rightarrow>
                       (case dispatchEvent c subscription NilValue of (tr, r) \<Rightarrow> (raw @ tr, r))
                   | Some newEvent \<Rightarrow>
                       (case json_Unmarshal x data newEvent of
                          Inl err \<Rightarrow>
                            (raw @ [Unmarshal data newEvent],
                             Return (Some (CouldNotUnmarshalEvent (ps_Type subscription) newEvent err)))
                        | Inr event \<Rightarrow>
                            (case dispatchEvent c subscription event of
                               (tr, r) \<Rightarrow> (raw @ [Unmarshal data newEvent] @ tr, r))))))"

subsection \<open>The dispatcher\<close>

text \<open>
  \<^verbatim>\<open>reconnect\<close>, the part that runs in the caller: the address is overwritten, the new
  transport is dialed, and the goroutine that awaits the welcome is started on it.
\<close>

definition reconnect ::
  "Client \<Rightarrow> world \<Rightarrow> ReconnectMessage \<Rightarrow> effect list \<times> error option \<times> Client \<times> world" where
  "reconnect c w message =
     (let c' = c\<lparr>Address := rm_ReconnectUrl message\<rparr> in
      case dial c' w of
        (tr, Inl err, w') \<Rightarrow> (tr, Some CouldNotDialToReconnect, c', w')
      | (tr, Inr new, w') \<Rightarrow> (tr @ [GoReconnect new], None, c', w'))"

text \<open>The type switch of \<^verbatim>\<open>handleMessage\<close>, with its \<^verbatim>\<open>default\<close> branch.\<close>

fun dispatchMessage ::
  "externals \<Rightarrow> Client \<Rightarrow> world \<Rightarrow> any \<Rightarrow> effect list \<times> error option outcome \<times> Client \<times> world"
  where
  "dispatchMessage x c w (PWelcomeMessage msg) =
     (callFunc (onWelcome c) (PWelcomeMessage msg), Return None, c, w)"
| "dispatchMessage x c w (PKeepAliveMessage msg) =
     (callFunc (onKeepAlive c) (PKeepAliveMessage msg), Return None, c, w)"
| "dispatchMessage x c w (PNotificationMessage msg) =
     (case handleNotification x c msg of
        (tr, Panic) \<Rightarrow> (callFunc (onNotification c) (PNotificationMessage msg) @ tr, Panic, c, w)
      | (tr, Return (Some err)) \<Rightarrow>
          (callFunc (onNotification c) (PNotificationMessage msg) @ tr,
           Return (Some (CouldNotHandleNotification err)), c, w)
      | (tr, Return None) \<Rightarrow>
          (callFunc (onNotification c) (PNotificationMessage msg) @ tr, Return None, c, w))"
| "dispatchMessage x c w (PReconnectMessage msg) =
     (case reconnect c w msg of
        (tr, Some err, c', w') \<Rightarrow>
          (callFunc (onReconnect c) (PReconnectMessage msg) @ tr,
           Return (Some (CouldNotHandleReconnect err)), c', w')
      | (tr, None, c', w') \<Rightarrow>
          (callFunc (onReconnect c) (PReconnectMessage msg) @ tr, Return None, c', w'))"
| "dispatchMessage x c w (PRevokeMessage msg) =
     (callFunc (onRevoke c) (PRevokeMessage msg), Return None, c, w)"
| "dispatchMessage x c w msg = ([], Return (Some (UnhandledMessage msg)), c, w)"

definition handleMessage ::
  "externals \<Rightarrow> Client \<Rightarrow> world \<Rightarrow> bytes \<Rightarrow> effect list \<times> error option outcome \<times> Client \<times> world"
  where
  "handleMessage x c w data =
     (case parseBaseMessage x data of
        (tr, Inl err) \<Rightarrow> (tr, Return (Some err), c, w)
      | (tr, Inr metadata) \<Rightarrow>
          (let messageType = MessageType metadata in
           case messageTypeMap messageType of
             None \<Rightarrow> (tr, Return (Some (UnknownMessageType messageType data)), c, w)
           | Some message \<Rightarrow>
               (case json_Unmarshal x data message of
                  Inl err \<Rightarrow>
                    (tr @ [Unmarshal data message],
                     Return (Some (CouldNotUnmarshalMessage messageType err)), c, w)
                | Inr msg \<Rightarrow>
                    (case dispatchMessage x c w msg of
                       (tr', r, c', w') \<Rightarrow> (tr @ [Unmarshal data message] @ tr', r, c', w')))))"

subsection \<open>The reconnect goroutine\<close>

text \<open>
  The goroutine that \<^verbatim>\<open>reconnect\<close> starts, up to its decision, given what the one
  \<^verbatim>\<open>Read\<close> on the new transport returned (on an error the data is empty). A failed read
  and a failed parse are reported and do not return; the metadata of a failed parse is the
  zero value. The result is \<open>True\<close> when the frame is the welcome and the swap follows,
  \<open>False\<close> when the goroutine has returned.
\<close>

definition awaitWelcome ::
  "externals \<Rightarrow> Client \<Rightarrow> ws_error + bytes \<Rightarrow> effect list \<times> bool outcome" where
  "awaitWelcome x c r =
     (let data = (case r of Inl _ \<Rightarrow> [] | Inr d \<Rightarrow> d);
          read_report = (case r of
                           Inl err \<Rightarrow> callOnError c (ReconnectCouldNotRead (TransportError err))
                         | Inr _ \<Rightarrow> ([], Return ()))
      in case read_report of
           (tr1, Panic) \<Rightarrow> (tr1, Panic)
         | (tr1, Return _) \<Rightarrow>
             (case parseBaseMessage x data of
                (tr2, parsed) \<Rightarrow>
                  (let metadata = (case parsed of Inl _ \<Rightarrow> zeroMetadata | Inr m \<Rightarrow> m);
                       parse_report = (case parsed of
                                         Inl err \<Rightarrow> callOnError c (ReconnectCouldNotParse err)
                                       | Inr _ \<Rightarrow> ([], Return ()))
                   in case parse_report of
                        (tr3, Panic) \<Rightarrow> (tr1 @ tr2 @ tr3, Panic)
                      | (tr3, Return _) \<Rightarrow>
                          (if MessageType metadata \<noteq> ''session_welcome'' then
                             (case callOnError c (ReconnectNoWelcome (MessageType metadata)) of
                                (tr4, Panic) \<Rightarrow> (tr1 @ tr2 @ tr3 @ tr4, Panic)
                              | (tr4, Return _) \<Rightarrow> (tr1 @ tr2 @ tr3 @ tr4, Return False))
                           else (tr1 @ tr2 @ tr3, Return True)))))"

text \<open>
  \<^verbatim>\<open>c.ws.Close(websocket.StatusNormalClosure, "Stopping Connection")\<close> on the active
  transport, the answer dropped; the call on a \<^verbatim>\<open>nil\<close> transport panics.
\<close>

definition closeActive :: "Client \<Rightarrow> world \<Rightarrow> world outcome" where
  "closeActive c w =
     (case ws c of
        None \<Rightarrow> Panic
      | Some k \<Rightarrow> Return (snd (ws_Close w k StatusNormalClosure ''Stopping Connection'')))"

text \<open>
  The whole goroutine run without interruption, from its \<^verbatim>\<open>Read\<close> on the new transport
  up to the send on \<^verbatim>\<open>reconnected\<close>. The result is \<open>None\<close> while the read blocks;
  otherwise \<open>True\<close> says that the goroutine has swapped the transport and stands at the
  send, \<open>False\<close> that it has returned.
\<close>

definition reconnectTask ::
  "externals \<Rightarrow> Client \<Rightarrow> world \<Rightarrow> conn \<Rightarrow>
     (effect list \<times> bool outcome \<times> Client \<times> world) option" where
  "reconnectTask x c w new =
     (case ws_Read w new of
        None \<Rightarrow> None
      | Some (r, w1) \<Rightarrow>
          Some (case awaitWelcome x c r of
                  (tr, Panic) \<Rightarrow> (tr, Panic, c, w1)
                | (tr, Return False) \<Rightarrow> (tr, Return False, c, w1)
                | (tr, Return True) \<Rightarrow>
                    (let c1 = c\<lparr>reconnecting := True\<rparr> in
                     case closeActive c1 w1 of
                       Panic \<Rightarrow> (tr, Panic, c1, w1)
                     | Return w2 \<Rightarrow> (tr, Return True, c1\<lparr>ws := Some new\<rparr>, w2))))"

subsection \<open>Connect and Close\<close>

text \<open>
  \<^verbatim>\<open>Close\<close>. The deferred \<^verbatim>\<open>c.ws = nil\<close> runs on every path, also when the call on a
  \<^verbatim>\<open>nil\<close> transport panics. An error of the transport is returned unless
  \<^verbatim>\<open>errors.As\<close> finds a \<^verbatim>\<open>websocket.CloseError\<close> in it.
\<close>

definition Close :: "Client \<Rightarrow> world \<Rightarrow> error option outcome \<times> Client \<times> world" where
  "Close c w =
     (if \<not> connected c then (Return None, c\<lparr>ws := None\<rparr>, w)
      else
        (let c1 = c\<lparr>connected := False\<rparr> in
         case ws c1 of
           None \<Rightarrow> (Panic, c1\<lparr>ws := None\<rparr>, w)
         | Some k \<Rightarrow>
             (case ws_Close w k StatusNormalClosure ''Stopping Connection'' of
                (err, w') \<Rightarrow>
                  ((case err of
                      None \<Rightarrow> Return None
                    | Some e \<Rightarrow>
                        (if close_code e = None
                         then Return (Some (CouldNotClose (TransportError e)))
                         else Return None)),
                   c1\<lparr>ws := None\<rparr>, w'))))"

text \<open>
  \<^verbatim>\<open>ConnectWithContext\<close> up to its loop: \<open>Some err\<close> is returned to the caller,
  \<open>None\<close> enters the loop.
\<close>

definition connectStart ::
  "Client \<Rightarrow> world \<Rightarrow> go_context \<Rightarrow> effect list \<times> error option \<times> Client \<times> world" where
  "connectStart c w cx =
     (if onWelcome c = None then ([], Some ErrNilOnWelcome, c, w)
      else
        (let c1 = c\<lparr>ctx := Some cx\<rparr> in
         case dial c1 w of
           (tr, Inl err, w') \<Rightarrow> (tr, Some err, c1, w')
         | (tr, Inr k, w') \<Rightarrow> (tr, None, c1\<lparr>ws := Some k, connected := True\<rparr>, w')))"

text \<open>
  One turn of the loop of \<^verbatim>\<open>ConnectWithContext\<close>, given what \<^verbatim>\<open>c.ws.Read(ctx)\<close>
  returned: the loop goes on to its next read (\<open>Continue\<close>), waits for the goroutine on
  \<^verbatim>\<open>reconnected\<close> and then goes on (\<open>AwaitReconnected\<close>), returns (\<open>Stop\<close>), or the
  program panics (\<open>Crash\<close>).
\<close>

datatype loop_next = Continue | AwaitReconnected | Stop "error option" | Crash

definition loop_body ::
  "externals \<Rightarrow> Client \<Rightarrow> world \<Rightarrow> ws_error + bytes \<Rightarrow>
     effect list \<times> loop_next \<times> Client \<times> world" where
  "loop_body x c w r =
     (case r of
        Inl err \<Rightarrow>
          (if is_canceled err then ([], Stop None, c, w)
           else if CloseStatus err = StatusNormalClosure then
             (if reconnecting c then ([], AwaitReconnected, c\<lparr>reconnecting := False\<rparr>, w)
              else ([], Stop None, c, w))
           else ([], Stop (Some (CouldNotReadMessage (TransportError err))), c, w))
      | Inr data \<Rightarrow>
          (case handleMessage x c w data of
             (tr, Panic, c', w') \<Rightarrow> (tr, Crash, c', w')
           | (tr, Return None, c', w') \<Rightarrow> (tr, Continue, c', w')
           | (tr, Return (Some err), c', w') \<Rightarrow>
               (case callOnError c' err of
                  (tr', Panic) \<Rightarrow> (tr @ tr', Crash, c', w')
                | (tr', Return _) \<Rightarrow> (tr @ tr', Continue, c', w'))))"

subsection \<open>Reading the effects\<close>

text \<open>
  The calls of application callbacks among the effects, and among these the starts of a
  handler of a message kind (its argument is one of the five messages). \<open>registered\<close>
  is the field of the client that holds the handler of a message's kind.
\<close>

fun is_call :: "effect \<Rightarrow> bool" where
  "is_call (Go f v) = True"
| "is_call (CallRawEvent f d m s) = True"
| "is_call (CallOnError f e) = True"
| "is_call _ = False"

fun is_message :: "any \<Rightarrow> bool" where
  "is_message (PWelcomeMessage _) = True"
| "is_message (PKeepAliveMessage _) = True"
| "is_message (PNotificationMessage _) = True"
| "is_message (PReconnectMessage _) = True"
| "is_message (PRevokeMessage _) = True"
| "is_message _ = False"

fun is_message_call :: "effect \<Rightarrow> bool" where
  "is_message_call (Go f v) = is_message v"
| "is_message_call _ = False"

fun registered :: "Client \<Rightarrow> any \<Rightarrow> callback option" where
  "registered c (PWelcomeMessage _) = onWelcome c"
| "registered c (PKeepAliveMessage _) = onKeepAlive c"
| "registered c (PNotificationMessage _) = onNotification c"
| "registered c (PReconnectMessage _) = onReconnect c"
| "registered c (PRevokeMessage _) = onRevoke c"
| "registered c _ = None"

subsection \<open>A sample client and sample collaborators\<close>

text \<open>
  Concrete collaborators on which the theorems below are run: a decoder that reads the
  message type off the frame's bytes and fails on \<^verbatim>\<open>{\<close>, an event decoder that fails on
  \<^verbatim>\<open>[]\<close>, a subscription table with one typed entry and one entry without a typed target,
  and a client with every handler set.
\<close>

definition ex_metadata :: "string \<Rightarrow> MessageMetadata" where
  "ex_metadata ty = \<lparr>MessageID = ''m1'', MessageType = ty, MessageTimestamp = ''t1''\<rparr>"

definition ex_subscription :: "string \<Rightarrow> PayloadSubscription" where
  "ex_subscription st = \<lparr>ps_ID = ''s1'', ps_Type = st, ps_Version = ''1'', ps_Condition = []\<rparr>"

definition ex_notification :: "string \<Rightarrow> string \<Rightarrow> NotificationMessage" where
  "ex_notification st ev =
     \<lparr>nm_Metadata = ex_metadata ''notification'', nm_Subscription = ex_subscription st,
      nm_Event = ev\<rparr>"

definition ex_externals :: "string \<Rightarrow> string \<Rightarrow> externals" where
  "ex_externals st ev =
     \<lparr>decodeBase = (\<lambda>d. if d = ''{'' then Inl ''unexpected end of JSON input''
                         else Inr (ex_metadata d)),
      decodeWelcome = (\<lambda>d. Inr \<lparr>wm_Metadata = ex_metadata d, wm_Payload = ''session''\<rparr>),
      decodeKeepAlive = (\<lambda>d. Inr \<lparr>km_Metadata = ex_metadata d, km_Payload = []\<rparr>),
      decodeNotification = (\<lambda>d. Inr (ex_notification st ev)),
      decodeReconnect = (\<lambda>d. Inr \<lparr>rm_Metadata = ex_metadata d,
                                   rm_ReconnectUrl = ''wss://next'', rm_Session = ''s''\<rparr>),
      decodeRevoke = (\<lambda>d. Inr \<lparr>vm_Metadata = ex_metadata d, vm_Payload = []\<rparr>),
      decodeEvent = (\<lambda>t d. if d = ''[]'' then Inl ''cannot unmarshal array'' else Inr d),
      decodeOther = (\<lambda>n d. Inr d),
      MarshalJSON = Inr,
      subMetadata = map_of
        [(''channel.follow'', \<lparr>EventGen = Some (PEvent EventChannelFollow [])\<rparr>),
         (''channel.chat.message'', \<lparr>EventGen = None\<rparr>)]\<rparr>"

definition ex_client :: Client where
  "ex_client =
     \<lparr>Address = ''wss://eventsub.wss.twitch.tv/ws'', ws = Some 0, connected = True,
      ctx = Some 0, reconnecting = False,
      onError = Some 10, onWelcome = Some 11, onKeepAlive = Some 12, onNotification = Some 13,
      onReconnect = Some 14, onRevoke = Some 15, onRawEvent = Some 16,
      onEvent = (\<lambda>t. if t = EventChannelFollow then Some 17 else None)\<rparr>"

definition ex_transport :: "(ws_error + bytes) list \<Rightarrow> transport" where
  "ex_transport fs =
     \<lparr>inbox = fs, closes = [], close_answer = None,
      after_close = \<lparr>is_canceled = False, close_code = Some 1000, ws_text = ''closed''\<rparr>\<rparr>"

definition ex_world :: "(ws_error + bytes) list \<Rightarrow> world" where
  "ex_world fs =
     \<lparr>conns = (\<lambda>k. ex_transport []), dialed = 1,
      dial_answer = (\<lambda>n a. Inr (ex_transport fs))\<rparr>"

text \<open>The calls of the raw-event hook and the calls of the decoder among the effects.\<close>

fun is_raw_call :: "effect \<Rightarrow> bool" where
  "is_raw_call (CallRawEvent f d m s) = True"
| "is_raw_call _ = False"

fun is_decode :: "effect \<Rightarrow> bool" where
  "is_decode (Unmarshal d v) = True"
| "is_decode _ = False"

subsection \<open>The loop and the goroutines, interleaved\<close>

text \<open>
  \<^verbatim>\<open>ConnectWithContext\<close> runs its loop while the goroutines started by \<^verbatim>\<open>reconnect\<close>
  run beside it. The system is the client and the world they share, the place each of them
  has reached, and a log of what has happened. A schedule says, step by step, who moves;
  each step is one access to what is shared or one blocking call. A choice that cannot move
  (a read on which nothing has arrived, the send on \<^verbatim>\<open>reconnected\<close> while the loop is
  not receiving, a thread that has ended) leaves the system as it is. The memory is taken
  to be sequentially consistent.

  The loop: at the top of \<^verbatim>\<open>for\<close> it loads \<^verbatim>\<open>c.ws\<close> (\<open>AtTop\<close>), reads on the
  transport it loaded (\<open>Reading\<close>), runs the body on what the read returned (\<open>Got\<close>),
  and receives from \<^verbatim>\<open>reconnected\<close> (\<open>Awaiting\<close>) or returns (\<open>Finished\<close>).
  A goroutine on its new transport: the read and the decision (\<open>TRead\<close>),
  \<^verbatim>\<open>c.reconnecting = true\<close> (\<open>TSetFlag\<close>), the close of the active transport
  (\<open>TClose\<close>), \<^verbatim>\<open>c.ws = ws\<close> (\<open>TSwap\<close>), the send (\<open>TSend\<close>), the end (\<open>TDone\<close>).
\<close>

datatype main_pc = AtTop | Reading conn | Got "ws_error + bytes" | Awaiting | Finished "error option"

datatype task_pc = TRead | TSetFlag | TClose | TSwap | TSend | TDone

datatype event =
    Did effect
  | MainRead conn "ws_error + bytes"
  | TaskRead conn "ws_error + bytes"
  | ClosedActive
  | SetWs conn
  | Handoff

datatype choice = Main | Task nat

record system =
  client :: Client
  wld :: world
  main :: main_pc
  tasks :: "(conn \<times> task_pc) list"
  crashed :: bool
  log :: "event list"

fun spawned :: "effect list \<Rightarrow> (conn \<times> task_pc) list" where
  "spawned [] = []"
| "spawned (GoReconnect k # es) = (k, TRead) # spawned es"
| "spawned (e # es) = spawned es"

definition main_step :: "externals \<Rightarrow> system \<Rightarrow> system" where
  "main_step x s =
     (case main s of
        AtTop \<Rightarrow>
          (case ws (client s) of
             None \<Rightarrow> s\<lparr>crashed := True\<rparr>
           | Some k \<Rightarrow> s\<lparr>main := Reading k\<rparr>)
      | Reading k \<Rightarrow>
          (case ws_Read (wld s) k of
             None \<Rightarrow> s
           | Some (r, w') \<Rightarrow> s\<lparr>wld := w', main := Got r, log := log s @ [MainRead k r]\<rparr>)
      | Got r \<Rightarrow>
          (case loop_body x (client s) (wld s) r of
             (tr, nxt, c', w') \<Rightarrow>
               (let s' = s\<lparr>client := c', wld := w', tasks := tasks s @ spawned tr,
                           log := log s @ map Did tr\<rparr>
                in case nxt of
                     Continue \<Rightarrow> s'\<lparr>main := AtTop\<rparr>
                   | AwaitReconnected \<Rightarrow> s'\<lparr>main := Awaiting\<rparr>
                   | Stop err \<Rightarrow> s'\<lparr>main := Finished err\<rparr>
                   | Crash \<Rightarrow> s'\<lparr>crashed := True\<rparr>))
      | Awaiting \<Rightarrow> s
      | Finished err \<Rightarrow> s)"

definition task_step :: "externals \<Rightarrow> nat \<Rightarrow> system \<Rightarrow> system" where
  "task_step x i s =
     (case tasks s ! i of
        (new, TRead) \<Rightarrow>
          (case ws_Read (wld s) new of
             None \<Rightarrow> s
           | Some (r, w') \<Rightarrow>
               (case awaitWelcome x (client s) r of
                  (tr, Panic) \<Rightarrow>
                    s\<lparr>wld := w', crashed := True, log := log s @ TaskRead new r # map Did tr\<rparr>
                | (tr, Return go_on) \<Rightarrow>
                    s\<lparr>wld := w',
                      tasks := (tasks s)[i := (new, if go_on then TSetFlag else TDone)],
                      log := log s @ TaskRead new r # map Did tr\<rparr>))
      | (new, TSetFlag) \<Rightarrow>
          s\<lparr>client := (client s)\<lparr>reconnecting := True\<rparr>, tasks := (tasks s)[i := (new, TClose)]\<rparr>
      | (new, TClose) \<Rightarrow>
          (case closeActive (client s) (wld s) of
             Panic \<Rightarrow> s\<lparr>crashed := True\<rparr>
           | Return w' \<Rightarrow>
               s\<lparr>wld := w', tasks := (tasks s)[i := (new, TSwap)], log := log s @ [ClosedActive]\<rparr>)
      | (new, TSwap) \<Rightarrow>
          s\<lparr>client := (client s)\<lparr>ws := Some new\<rparr>, tasks := (tasks s)[i := (new, TSend)],
            log := log s @ [SetWs new]\<rparr>
      | (new, TSend) \<Rightarrow>
          (if main s = Awaiting
           then s\<lparr>main := AtTop, tasks := (tasks s)[i := (new, TDone)], log := log s @ [Handoff]\<rparr>
           else s)
      | (new, TDone) \<Rightarrow> s)"

definition step :: "externals \<Rightarrow> choice \<Rightarrow> system \<Rightarrow> system" where
  "step x ch s =
     (if crashed s then s
      else case ch of
             Main \<Rightarrow> main_step x s
           | Task i \<Rightarrow> (if i < length (tasks s) then task_step x i s else s))"

fun run :: "externals \<Rightarrow> choice list \<Rightarrow> system \<Rightarrow> system" where
  "run x [] s = s"
| "run x (ch # sched) s = run x sched (step x ch s)"

text \<open>
  \<^verbatim>\<open>ConnectWithContext\<close> under a schedule: the system when the schedule is used up.
  \<open>Finished err\<close> says that the call has returned \<open>err\<close>.
\<close>

definition ConnectWithContext ::
  "externals \<Rightarrow> Client \<Rightarrow> world \<Rightarrow> go_context \<Rightarrow> choice list \<Rightarrow> system" where
  "ConnectWithContext x c w cx sched =
     (case connectStart c w cx of
        (tr, Some err, c', w') \<Rightarrow>
          \<lparr>client = c', wld = w', main = Finished (Some err), tasks = [], crashed = False,
           log = map Did tr\<rparr>
      | (tr, None, c', w') \<Rightarrow>
          run x sched
            \<lparr>client = c', wld = w', main = AtTop, tasks = [], crashed = False,
             log = map Did tr\<rparr>)"

text \<open>
  The frames the loop has read, with the transport each came from: all of them, those
  read after the first swap, and those read before it.
\<close>

fun frames_read :: "event list \<Rightarrow> (conn \<times> bytes) list" where
  "frames_read [] = []"
| "frames_read (MainRead k (Inr data) # es) = (k, data) # frames_read es"
| "frames_read (e # es) = frames_read es"

fun frames_after_swap :: "event list \<Rightarrow> (conn \<times> bytes) list" where
  "frames_after_swap [] = []"
| "frames_after_swap (SetWs k # es) = frames_read es"
| "frames_after_swap (e # es) = frames_after_swap es"

fun frames_before_swap :: "event list \<Rightarrow> (conn \<times> bytes) list" where
  "frames_before_swap [] = []"
| "frames_before_swap (SetWs k # es) = []"
| "frames_before_swap (MainRead k (Inr data) # es) = (k, data) # frames_before_swap es"
| "frames_before_swap (e # es) = frames_before_swap es"

fun swaps :: "event list \<Rightarrow> conn list" where
  "swaps [] = []"
| "swaps (SetWs k # es) = k # swaps es"
| "swaps (e # es) = swaps es"

definition ex_closed :: ws_error where
  "ex_closed = \<lparr>is_canceled = False, close_code = Some 1000, ws_text = ''closed''\<rparr>"

subsection \<open>A handoff in flight\<close>

text \<open>
  The system as \<^verbatim>\<open>reconnect\<close> leaves it: the loop is back at the top of \<^verbatim>\<open>for\<close> and
  one goroutine is about to read on the transport it was given.
\<close>

definition handoff_start :: "Client \<Rightarrow> world \<Rightarrow> conn \<Rightarrow> event list \<Rightarrow> system" where
  "handoff_start c w new lg =
     \<lparr>client = c, wld = w, main = AtTop, tasks = [(new, TRead)], crashed = False, log = lg\<rparr>"

text \<open>
  One goroutine, on the transport \<open>new\<close>, beside a loop that started on \<open>old\<close>: what
  holds of the system before the swap and after it.
\<close>

definition handoff_inv :: "conn \<Rightarrow> conn \<Rightarrow> task_pc \<Rightarrow> system \<Rightarrow> bool" where
  "handoff_inv old new pc s \<longleftrightarrow>
     tasks s = [(new, pc)] \<and>
     (\<forall>kd \<in> set (frames_before_swap (log s)). fst kd = old) \<and>
     (if swaps (log s) = [] then
        ws (client s) = Some old \<and> pc \<noteq> TSend \<and>
        (pc = TSwap \<longrightarrow> closes (conns (wld s) old) \<noteq> []) \<and>
        (\<forall>k. main s = Reading k \<longrightarrow> k = old)
      else
        swaps (log s) = [new] \<and> ws (client s) = Some new \<and>
        closes (conns (wld s) old) \<noteq> [] \<and> (pc = TSend \<or> pc = TDone) \<and>
        (\<forall>k. main s = Reading k \<longrightarrow> k = old \<or> k = new) \<and>
        (\<forall>kd \<in> set (frames_after_swap (log s)). fst kd = new))"

text \<open>
  The same system when the first frame on \<open>new\<close> is \<open>data\<close> and is not the welcome: the
  goroutine has not read yet and \<open>data\<close> is what it will read, or it has ended and the
  error sink \<open>f\<close> has its report; the loop stays on \<open>old\<close>, whose close requests are
  still \<open>cl\<close>.
\<close>

definition abort_inv ::
  "externals \<Rightarrow> conn \<Rightarrow> conn \<Rightarrow> callback \<Rightarrow> bytes \<Rightarrow> (int \<times> string) list \<Rightarrow> task_pc \<Rightarrow>
     system \<Rightarrow> bool" where
  "abort_inv x old new f data cl pc s \<longleftrightarrow>
     tasks s = [(new, pc)] \<and> swaps (log s) = [] \<and> ws (client s) = Some old \<and>
     onError (client s) = Some f \<and> closes (conns (wld s) old) = cl \<and>
     (\<forall>k. main s = Reading k \<longrightarrow> k = old) \<and>
     (if pc = TRead
      then closes (conns (wld s) new) = [] \<and> take 1 (inbox (conns (wld s) new)) = [Inr data]
      else pc = TDone \<and>
           Did (CallOnError f (ReconnectNoWelcome
                  (case decodeBase x data of Inl e \<Rightarrow> [] | Inr md \<Rightarrow> MessageType md)))
             \<in> set (log s))"

text \<open>
  A sample handoff: the old transport delivers the reconnect message and then a keepalive,
  the dialed one the welcome and then a notification. The start is the system after the
  loop has read and handled the reconnect message.
\<close>

definition ex_handoff_world :: world where
  "ex_handoff_world =
     \<lparr>conns = (\<lambda>k. ex_transport
                  (if k = 0 then [Inr ''session_reconnect'', Inr ''session_keepalive''] else [])),
      dialed = 1,
      dial_answer = (\<lambda>n a. Inr (ex_transport [Inr ''session_welcome'', Inr ''notification'']))\<rparr>"

definition ex_handoff_start :: system where
  "ex_handoff_start =
     run (ex_externals ''channel.follow'' ''{}'') [Main, Main, Main]
       \<lparr>client = ex_client, wld = ex_handoff_world, main = AtTop, tasks = [], crashed = False,
        log = []\<rparr>"

definition ex_handoff_schedule :: "choice list" where
  "ex_handoff_schedule =
     [Task 0, Task 0, Main, Task 0, Task 0, Main, Main, Task 0, Main, Main, Main]"

definition ex_reconnect_message :: ReconnectMessage where
  "ex_reconnect_message =
     \<lparr>rm_Metadata = ex_metadata ''session_reconnect'', rm_ReconnectUrl = ''wss://next'',
      rm_Session = ''s''\<rparr>"

section \<open>Properties\<close>

subsection \<open>The dispatcher\<close>

lemma messageTypeMap_Some:
  "messageTypeMap k = Some z \<Longrightarrow>
     z = PWelcomeMessage zeroWelcome \<or> z = PKeepAliveMessage zeroKeepAlive \<or>
     z = PNotificationMessage zeroNotification \<or> z = PReconnectMessage zeroReconnect \<or>
     z = PRevokeMessage zeroRevoke"
  by (auto simp: messageTypeMap_def split: if_splits)

lemma messageTypeMap_is_message: "messageTypeMap k = Some z \<Longrightarrow> is_message z"
  by (auto dest: messageTypeMap_Some)

lemma json_Unmarshal_message:
  "is_message z \<Longrightarrow> json_Unmarshal x data z = Inr msg \<Longrightarrow> is_message msg"
  by (cases z) (auto simp: decoded_def split: sum.splits)

lemma dispatchEvent_calls:
  "filter is_message_call (fst (dispatchEvent c s v)) = []"
  by (cases v) (auto simp: callFunc_def callOnError_def split: option.splits)

lemma dispatchEvent_callsD:
  "dispatchEvent c s v = (tr, r) \<Longrightarrow> filter is_message_call tr = []"
  using dispatchEvent_calls [of c s v] by simp

lemma handleNotification_calls:
  "filter is_message_call (fst (handleNotification x c m)) = []"
  unfolding handleNotification_def Let_def
  by (auto simp del: dispatchEvent.simps simp add: dispatchEvent_calls
        split: sum.splits option.splits prod.splits dest: dispatchEvent_callsD)

lemma handleNotification_callsD:
  "handleNotification x c m = (tr, r) \<Longrightarrow> filter is_message_call tr = []"
  using handleNotification_calls [of x c m] by simp

lemma dispatchMessage_message_calls:
  "is_message msg \<Longrightarrow>
   filter is_message_call (fst (dispatchMessage x c w msg)) = callFunc (registered c msg) msg"
  by (cases msg)
     (auto simp: callFunc_def reconnect_def dial_def Let_def
        split: option.splits prod.splits sum.splits outcome.splits
        dest: handleNotification_callsD)

lemma dispatchMessage_calls:
  "is_message msg \<Longrightarrow>
   filter is_call (fst (dispatchMessage x c w msg)) =
     callFunc (registered c msg) msg @
     (case msg of
        PNotificationMessage m \<Rightarrow> filter is_call (fst (handleNotification x c m))
      | _ \<Rightarrow> [])"
  by (cases msg)
     (auto simp: callFunc_def reconnect_def dial_def Let_def
        split: option.splits prod.splits sum.splits outcome.splits)

lemma handleMessage_decoded:
  assumes "decodeBase x data = Inr metadata"
    and "messageTypeMap (MessageType metadata) = Some z"
    and "json_Unmarshal x data z = Inr msg"
  shows "handleMessage x c w data =
     (case dispatchMessage x c w msg of
        (tr, r, c', w') \<Rightarrow>
          ([Unmarshal data (PBaseMessage zeroMetadata), Unmarshal data z] @ tr, r, c', w'))"
  using assms by (simp add: handleMessage_def parseBaseMessage_def split: prod.splits)

text \<open>
  C1. A frame whose message type is a key of \<open>messageTypeMap\<close> and whose body decodes
  into the value the map gives: among the handlers of message kinds, \<open>handleMessage\<close>
  starts the one registered for the kind of the message, once and with the decoded message,
  and no other (none when none is registered). Every callback called besides is called by
  the notification router, which runs after the notification handler has been started.
\<close>

theorem handleMessage_invokes_registered_handler:
  assumes "decodeBase x data = Inr metadata"
    and "messageTypeMap (MessageType metadata) = Some z"
    and "json_Unmarshal x data z = Inr msg"
  shows "filter is_message_call (fst (handleMessage x c w data)) =
           (case registered c msg of None \<Rightarrow> [] | Some f \<Rightarrow> [Go f msg])
         \<and> filter is_call (fst (handleMessage x c w data)) =
           (case registered c msg of None \<Rightarrow> [] | Some f \<Rightarrow> [Go f msg]) @
           (case msg of
              PNotificationMessage m \<Rightarrow> filter is_call (fst (handleNotification x c m))
            | _ \<Rightarrow> [])"
proof -
  have m: "is_message msg"
    using assms(2,3) messageTypeMap_is_message json_Unmarshal_message by blast
  have cf: "callFunc (registered c msg) msg =
            (case registered c msg of None \<Rightarrow> [] | Some f \<Rightarrow> [Go f msg])"
    by (simp add: callFunc_def)
  have "fst (handleMessage x c w data) =
        [Unmarshal data (PBaseMessage zeroMetadata), Unmarshal data z] @
        fst (dispatchMessage x c w msg)"
    using handleMessage_decoded [OF assms] by (simp split: prod.splits)
  then show ?thesis
    using dispatchMessage_message_calls [OF m, of x c w] dispatchMessage_calls [OF m, of x c w] cf
    by simp
qed

theorem handleMessage_invokes_registered_handler_witness:
  "decodeBase (ex_externals ''channel.follow'' ''{}'') ''notification'' =
     Inr (ex_metadata ''notification'')
   \<and> messageTypeMap (MessageType (ex_metadata ''notification'')) =
     Some (PNotificationMessage zeroNotification)
   \<and> filter is_message_call
       (fst (handleMessage (ex_externals ''channel.follow'' ''{}'') ex_client (ex_world [])
          ''notification'')) =
     [Go 13 (PNotificationMessage (ex_notification ''channel.follow'' ''{}''))]
   \<and> filter is_call
       (fst (handleMessage (ex_externals ''channel.follow'' ''{}'') ex_client (ex_world [])
          ''notification'')) =
     [Go 13 (PNotificationMessage (ex_notification ''channel.follow'' ''{}'')),
      CallRawEvent 16 ''{}'' (ex_metadata ''notification'') (ex_subscription ''channel.follow''),
      Go 17 (PEvent EventChannelFollow ''{}'')]"
proof -
  have a: "decodeBase (ex_externals ''channel.follow'' ''{}'') ''notification'' =
     Inr (ex_metadata ''notification'')"
    by (simp add: ex_externals_def)
  have b: "messageTypeMap (MessageType (ex_metadata ''notification'')) =
     Some (PNotificationMessage zeroNotification)"
    by (simp add: messageTypeMap_def ex_metadata_def)
  have c: "json_Unmarshal (ex_externals ''channel.follow'' ''{}'') ''notification''
             (PNotificationMessage zeroNotification) =
           Inr (PNotificationMessage (ex_notification ''channel.follow'' ''{}''))"
    by (simp add: ex_externals_def decoded_def)
  have d: "handleNotification (ex_externals ''channel.follow'' ''{}'') ex_client
             (ex_notification ''channel.follow'' ''{}'') =
           ([CallRawEvent 16 ''{}'' (ex_metadata ''notification'') (ex_subscription ''channel.follow''),
             Unmarshal ''{}'' (PEvent EventChannelFollow []),
             Go 17 (PEvent EventChannelFollow ''{}'')], Return None)"
    by (simp add: handleNotification_def ex_externals_def ex_notification_def ex_client_def
          ex_subscription_def decoded_def callFunc_def)
  show ?thesis
    using handleMessage_invokes_registered_handler [OF a b c, of ex_client "ex_world []"] a b d
    by (simp add: ex_client_def)
qed

lemma dispatchEvent_no_raw:
  "filter is_raw_call (fst (dispatchEvent c s v)) = [] \<and>
   filter is_decode (fst (dispatchEvent c s v)) = []"
  by (cases v) (auto simp: callFunc_def callOnError_def split: option.splits)

lemma dispatchEvent_no_rawD:
  "dispatchEvent c s v = (tr, r) \<Longrightarrow> filter is_raw_call tr = [] \<and> filter is_decode tr = []"
  using dispatchEvent_no_raw [of c s v] by simp

lemma dispatchMessage_handled:
  "is_message msg \<Longrightarrow> fst (snd (dispatchMessage x c w msg)) \<noteq> Return (Some (UnhandledMessage v))"
  by (cases msg) (auto split: prod.splits outcome.splits option.splits)

text \<open>
  C9. The \<^verbatim>\<open>default\<close> branch of the switch of \<open>handleMessage\<close> is never taken: what
  \<open>messageTypeMap\<close> gives for a key is one of the five messages, decoding keeps its type,
  and \<open>handleMessage\<close> never returns the error of the \<^verbatim>\<open>default\<close> branch.
\<close>

theorem handleMessage_default_unreachable:
  "(messageTypeMap k = Some z \<longrightarrow>
      is_message z \<and> (json_Unmarshal x data z = Inr msg \<longrightarrow> is_message msg))
   \<and> fst (snd (handleMessage x c w data)) \<noteq> Return (Some (UnhandledMessage v))"
proof -
  have a: "messageTypeMap k = Some z \<longrightarrow>
      is_message z \<and> (json_Unmarshal x data z = Inr msg \<longrightarrow> is_message msg)"
    using messageTypeMap_is_message json_Unmarshal_message by blast
  have b: "fst (snd (handleMessage x c w data)) \<noteq> Return (Some (UnhandledMessage v))"
  proof (cases "decodeBase x data")
    case (Inl e)
    then show ?thesis by (simp add: handleMessage_def parseBaseMessage_def)
  next
    case (Inr metadata)
    show ?thesis
    proof (cases "messageTypeMap (MessageType metadata)")
      case None
      with Inr show ?thesis by (simp add: handleMessage_def parseBaseMessage_def)
    next
      case (Some z')
      show ?thesis
      proof (cases "json_Unmarshal x data z'")
        case (Inl e)
        with Inr Some show ?thesis by (simp add: handleMessage_def parseBaseMessage_def)
      next
        case (Inr msg')
        have "is_message msg'"
          using Some Inr messageTypeMap_is_message json_Unmarshal_message by blast
        then show ?thesis
          using handleMessage_decoded [OF \<open>decodeBase x data = Inr metadata\<close> Some Inr, of c w]
            dispatchMessage_handled [of msg' x c w v]
          by (cases "dispatchMessage x c w msg'") simp
      qed
    qed
  qed
  from a b show ?thesis by blast
qed

theorem handleMessage_default_unreachable_witness:
  "messageTypeMap ''revocation'' = Some (PRevokeMessage zeroRevoke)
   \<and> is_message (PRevokeMessage zeroRevoke)
   \<and> fst (snd (handleMessage (ex_externals ''channel.follow'' ''{}'') ex_client (ex_world [])
        ''revocation'')) = Return None"
proof -
  have a: "messageTypeMap ''revocation'' = Some (PRevokeMessage zeroRevoke)"
    by (simp add: messageTypeMap_def)
  have b: "fst (snd (handleMessage (ex_externals ''channel.follow'' ''{}'') ex_client (ex_world [])
        ''revocation'')) = Return None"
    by (simp add: handleMessage_def parseBaseMessage_def ex_externals_def ex_metadata_def
          messageTypeMap_def decoded_def Let_def)
  show ?thesis
    using handleMessage_default_unreachable
      [of "''revocation''" "PRevokeMessage zeroRevoke" "ex_externals ''channel.follow'' ''{}''"
          "''revocation''" "PRevokeMessage zeroRevoke" ex_client "ex_world []" NilValue] a b
    by simp
qed

text \<open>
  C5, as the code has it. A frame whose message type is not a key of \<open>messageTypeMap\<close>:
  \<open>handleMessage\<close> calls no callback and returns the error that names the type and the
  frame; on a client whose error sink is set, the loop hands that error to the sink, once,
  and goes on: its thread is back at the top of \<^verbatim>\<open>for\<close>, where the next read starts.
\<close>

theorem unknown_message_type_reported_once:
  assumes "decodeBase x data = Inr metadata"
    and "messageTypeMap (MessageType metadata) = None"
    and "onError c = Some f"
  shows "handleMessage x c w data =
           ([Unmarshal data (PBaseMessage zeroMetadata)],
            Return (Some (UnknownMessageType (MessageType metadata) data)), c, w)
         \<and> loop_body x c w (Inr data) =
           ([Unmarshal data (PBaseMessage zeroMetadata),
             CallOnError f (UnknownMessageType (MessageType metadata) data)],
            Continue, c, w)
         \<and> main_step x
             \<lparr>client = c, wld = w, main = Got (Inr data), tasks = ts, crashed = cr, log = lg\<rparr> =
           \<lparr>client = c, wld = w, main = AtTop, tasks = ts, crashed = cr,
            log = lg @ [Did (Unmarshal data (PBaseMessage zeroMetadata)),
                        Did (CallOnError f (UnknownMessageType (MessageType metadata) data))]\<rparr>"
proof -
  have h: "handleMessage x c w data =
           ([Unmarshal data (PBaseMessage zeroMetadata)],
            Return (Some (UnknownMessageType (MessageType metadata) data)), c, w)"
    using assms(1,2) by (simp add: handleMessage_def parseBaseMessage_def)
  have l: "loop_body x c w (Inr data) =
           ([Unmarshal data (PBaseMessage zeroMetadata),
             CallOnError f (UnknownMessageType (MessageType metadata) data)],
            Continue, c, w)"
    using h assms(3) by (simp add: loop_body_def callOnError_def)
  have m: "main_step x
             \<lparr>client = c, wld = w, main = Got (Inr data), tasks = ts, crashed = cr, log = lg\<rparr> =
           \<lparr>client = c, wld = w, main = AtTop, tasks = ts, crashed = cr,
            log = lg @ [Did (Unmarshal data (PBaseMessage zeroMetadata)),
                        Did (CallOnError f (UnknownMessageType (MessageType metadata) data))]\<rparr>"
    using l by (simp add: main_step_def)
  from h l m show ?thesis by simp
qed

theorem unknown_message_type_reported_once_witness:
  "decodeBase (ex_externals ''channel.follow'' ''{}'') ''session_ping'' =
     Inr (ex_metadata ''session_ping'')
   \<and> messageTypeMap (MessageType (ex_metadata ''session_ping'')) = None
   \<and> onError ex_client = Some 10
   \<and> loop_body (ex_externals ''channel.follow'' ''{}'') ex_client (ex_world []) (Inr ''session_ping'') =
       ([Unmarshal ''session_ping'' (PBaseMessage zeroMetadata),
         CallOnError 10 (UnknownMessageType ''session_ping'' ''session_ping'')],
        Continue, ex_client, ex_world [])"
proof -
  have a: "decodeBase (ex_externals ''channel.follow'' ''{}'') ''session_ping'' =
     Inr (ex_metadata ''session_ping'')"
    by (simp add: ex_externals_def)
  have b: "messageTypeMap (MessageType (ex_metadata ''session_ping'')) = None"
    by (simp add: messageTypeMap_def ex_metadata_def)
  have c: "onError ex_client = Some 10"
    by (simp add: ex_client_def)
  show ?thesis
    using unknown_message_type_reported_once [OF a b c, of "ex_world []"] a b c
    by (simp add: ex_metadata_def)
qed

text \<open>
  C5 as stated fails on a client whose error sink has been cleared: \<^verbatim>\<open>c.onError(err)\<close>
  is called without a \<^verbatim>\<open>nil\<close> check, at this call as at every other, so the loop
  panics instead of reporting and going on.
\<close>

theorem unknown_message_type_nil_sink_counterexample:
  "onError (ex_client\<lparr>onError := None\<rparr>) = None
   \<and> messageTypeMap ''session_ping'' = None
   \<and> loop_body (ex_externals ''channel.follow'' ''{}'') (ex_client\<lparr>onError := None\<rparr>)
       (ex_world []) (Inr ''session_ping'') =
     ([Unmarshal ''session_ping'' (PBaseMessage zeroMetadata)], Crash,
      ex_client\<lparr>onError := None\<rparr>, ex_world [])
   \<and> crashed (main_step (ex_externals ''channel.follow'' ''{}'')
        \<lparr>client = ex_client\<lparr>onError := None\<rparr>, wld = ex_world [],
         main = Got (Inr ''session_ping''), tasks = [], crashed = False, log = []\<rparr>)"
  by (simp add: loop_body_def handleMessage_def parseBaseMessage_def callOnError_def
        ex_externals_def ex_metadata_def messageTypeMap_def main_step_def Let_def)

subsection \<open>The notification router\<close>

lemma handleNotification_known:
  assumes "MarshalJSON x (nm_Event m) = Inr data"
    and "subMetadata x (ps_Type (nm_Subscription m)) = Some md"
  shows "fst (handleNotification x c m) =
     (case onRawEvent c of
        None \<Rightarrow> []
      | Some f \<Rightarrow> [CallRawEvent f data (nm_Metadata m) (nm_Subscription m)]) @
     (case EventGen md of
        None \<Rightarrow> fst (dispatchEvent c (nm_Subscription m) NilValue)
      | Some z \<Rightarrow>
          Unmarshal data z #
          (case json_Unmarshal x data z of
             Inl err \<Rightarrow> []
           | Inr event \<Rightarrow> fst (dispatchEvent c (nm_Subscription m) event)))"
  using assms
  by (simp add: handleNotification_def Let_def del: dispatchEvent.simps
        split: option.splits sum.splits prod.splits)

text \<open>
  C4, as the code has it. A notification whose subscription type has an entry in
  \<open>subMetadata\<close> and whose event bytes \<^verbatim>\<open>MarshalJSON\<close> yields, with the raw-event hook
  set: the hook is the first thing the router calls, it is called once, with those bytes,
  the metadata of the message and its subscription, whether or not the entry has a typed
  target; if it has one, the one call of the decoder is given the same bytes.
\<close>

theorem raw_hook_called_for_known_subscription:
  assumes "MarshalJSON x (nm_Event m) = Inr data"
    and "subMetadata x (ps_Type (nm_Subscription m)) = Some md"
    and "onRawEvent c = Some f"
  shows "take 1 (fst (handleNotification x c m)) =
           [CallRawEvent f data (nm_Metadata m) (nm_Subscription m)]
         \<and> filter is_raw_call (fst (handleNotification x c m)) =
           [CallRawEvent f data (nm_Metadata m) (nm_Subscription m)]
         \<and> filter is_decode (fst (handleNotification x c m)) =
           (case EventGen md of None \<Rightarrow> [] | Some z \<Rightarrow> [Unmarshal data z])"
  using handleNotification_known [OF assms(1,2), of c] assms(3)
    dispatchEvent_no_raw [of c "nm_Subscription m"]
  by (simp del: dispatchEvent.simps split: option.splits sum.splits)

theorem raw_hook_called_for_known_subscription_witness:
  "MarshalJSON (ex_externals ''channel.chat.message'' ''{\"a\":1}'')
       (nm_Event (ex_notification ''channel.chat.message'' ''{\"a\":1}'')) = Inr ''{\"a\":1}''
   \<and> subMetadata (ex_externals ''channel.chat.message'' ''{\"a\":1}'')
       (ps_Type (nm_Subscription (ex_notification ''channel.chat.message'' ''{\"a\":1}''))) =
       Some \<lparr>EventGen = None\<rparr>
   \<and> onRawEvent ex_client = Some 16
   \<and> filter is_raw_call
       (fst (handleNotification (ex_externals ''channel.chat.message'' ''{\"a\":1}'') ex_client
          (ex_notification ''channel.chat.message'' ''{\"a\":1}''))) =
       [CallRawEvent 16 ''{\"a\":1}'' (ex_metadata ''notification'')
          (ex_subscription ''channel.chat.message'')]
   \<and> filter is_decode
       (fst (handleNotification (ex_externals ''channel.chat.message'' ''{\"a\":1}'') ex_client
          (ex_notification ''channel.chat.message'' ''{\"a\":1}''))) = []"
proof -
  have a: "MarshalJSON (ex_externals ''channel.chat.message'' ''{\"a\":1}'')
       (nm_Event (ex_notification ''channel.chat.message'' ''{\"a\":1}'')) = Inr ''{\"a\":1}''"
    by (simp add: ex_externals_def ex_notification_def)
  have b: "subMetadata (ex_externals ''channel.chat.message'' ''{\"a\":1}'')
       (ps_Type (nm_Subscription (ex_notification ''channel.chat.message'' ''{\"a\":1}''))) =
       Some \<lparr>EventGen = None\<rparr>"
    by (simp add: ex_externals_def ex_notification_def ex_subscription_def)
  have c: "onRawEvent ex_client = Some 16"
    by (simp add: ex_client_def)
  show ?thesis
    using raw_hook_called_for_known_subscription [OF a b c] a b c
    by (simp add: ex_notification_def)
qed

text \<open>
  C4 as stated fails for a subscription type with no entry in \<open>subMetadata\<close>: the router
  returns before it reaches the hook, although the hook is set.
\<close>

theorem raw_hook_unknown_subscription_counterexample:
  "onRawEvent ex_client = Some 16
   \<and> handleNotification (ex_externals ''channel.unknown'' ''{}'') ex_client
       (ex_notification ''channel.unknown'' ''{}'') =
     ([], Return (Some (UnknownSubscriptionType ''channel.unknown'')))"
  by (simp add: handleNotification_def ex_externals_def ex_notification_def ex_client_def
        ex_subscription_def)

text \<open>
  C10. A subscription type with an entry and a typed target whose decoding fails: the raw
  hook, if set, has been called with the event bytes before the decoder is, and the router
  returns the decode error having called nothing else.
\<close>

theorem raw_hook_before_typed_decode:
  assumes "MarshalJSON x (nm_Event m) = Inr data"
    and "subMetadata x (ps_Type (nm_Subscription m)) = Some md"
    and "EventGen md = Some z"
    and "json_Unmarshal x data z = Inl err"
  shows "handleNotification x c m =
     ((case onRawEvent c of
         None \<Rightarrow> []
       | Some f \<Rightarrow> [CallRawEvent f data (nm_Metadata m) (nm_Subscription m)]) @
      [Unmarshal data z],
      Return (Some (CouldNotUnmarshalEvent (ps_Type (nm_Subscription m)) z err)))"
  using assms by (simp add: handleNotification_def Let_def split: option.splits)

theorem raw_hook_before_typed_decode_witness:
  "MarshalJSON (ex_externals ''channel.follow'' ''[]'')
       (nm_Event (ex_notification ''channel.follow'' ''[]'')) = Inr ''[]''
   \<and> subMetadata (ex_externals ''channel.follow'' ''[]'')
       (ps_Type (nm_Subscription (ex_notification ''channel.follow'' ''[]''))) =
       Some \<lparr>EventGen = Some (PEvent EventChannelFollow [])\<rparr>
   \<and> json_Unmarshal (ex_externals ''channel.follow'' ''[]'') ''[]'' (PEvent EventChannelFollow []) =
       Inl (JsonError ''cannot unmarshal array'')
   \<and> handleNotification (ex_externals ''channel.follow'' ''[]'') ex_client
       (ex_notification ''channel.follow'' ''[]'') =
     ([CallRawEvent 16 ''[]'' (ex_metadata ''notification'') (ex_subscription ''channel.follow''),
       Unmarshal ''[]'' (PEvent EventChannelFollow [])],
      Return (Some (CouldNotUnmarshalEvent ''channel.follow'' (PEvent EventChannelFollow [])
        (JsonError ''cannot unmarshal array''))))"
proof -
  have a: "MarshalJSON (ex_externals ''channel.follow'' ''[]'')
       (nm_Event (ex_notification ''channel.follow'' ''[]'')) = Inr ''[]''"
    by (simp add: ex_externals_def ex_notification_def)
  have b: "subMetadata (ex_externals ''channel.follow'' ''[]'')
       (ps_Type (nm_Subscription (ex_notification ''channel.follow'' ''[]''))) =
       Some \<lparr>EventGen = Some (PEvent EventChannelFollow [])\<rparr>"
    by (simp add: ex_externals_def ex_notification_def ex_subscription_def)
  have c: "EventGen \<lparr>EventGen = Some (PEvent EventChannelFollow [])\<rparr> =
       Some (PEvent EventChannelFollow [])"
    by simp
  have d: "json_Unmarshal (ex_externals ''channel.follow'' ''[]'') ''[]'' (PEvent EventChannelFollow []) =
       Inl (JsonError ''cannot unmarshal array'')"
    by (simp add: ex_externals_def decoded_def)
  show ?thesis
    using raw_hook_before_typed_decode [OF a b c d, of ex_client] a b d
    by (simp add: ex_client_def ex_notification_def ex_subscription_def)
qed

text \<open>
  C6, as the code has it. A notification whose subscription type has no entry in
  \<open>subMetadata\<close> and whose event bytes \<^verbatim>\<open>MarshalJSON\<close> yields: the router calls no
  callback and returns the error that names the unknown subscription type; on a client
  whose error sink is set, the loop hands that error, wrapped by \<open>handleMessage\<close>, to
  the sink and goes on.
\<close>

theorem unknown_subscription_type_reported:
  assumes "subMetadata x (ps_Type (nm_Subscription m)) = None"
    and "MarshalJSON x (nm_Event m) = Inr data"
    and "decodeBase x frame = Inr metadata"
    and "MessageType metadata = ''notification''"
    and "decodeNotification x frame = Inr m"
    and "onError c = Some f"
  shows "handleNotification x c m =
           ([], Return (Some (UnknownSubscriptionType (ps_Type (nm_Subscription m)))))
         \<and> loop_body x c w (Inr frame) =
           ([Unmarshal frame (PBaseMessage zeroMetadata),
             Unmarshal frame (PNotificationMessage zeroNotification)] @
            callFunc (onNotification c) (PNotificationMessage m) @
            [CallOnError f (CouldNotHandleNotification
               (UnknownSubscriptionType (ps_Type (nm_Subscription m))))],
            Continue, c, w)"
proof -
  have n: "handleNotification x c m =
           ([], Return (Some (UnknownSubscriptionType (ps_Type (nm_Subscription m)))))"
    using assms(1,2) by (simp add: handleNotification_def)
  have k: "messageTypeMap (MessageType metadata) = Some (PNotificationMessage zeroNotification)"
    using assms(4) by (simp add: messageTypeMap_def)
  have u: "json_Unmarshal x frame (PNotificationMessage zeroNotification) =
           Inr (PNotificationMessage m)"
    using assms(5) by (simp add: decoded_def)
  show ?thesis
    using n handleMessage_decoded [OF assms(3) k u, of c w] assms(6)
    by (simp add: loop_body_def callOnError_def)
qed

theorem unknown_subscription_type_reported_witness:
  "subMetadata (ex_externals ''channel.unknown'' ''{}'')
       (ps_Type (nm_Subscription (ex_notification ''channel.unknown'' ''{}''))) = None
   \<and> loop_body (ex_externals ''channel.unknown'' ''{}'') ex_client (ex_world [])
       (Inr ''notification'') =
     ([Unmarshal ''notification'' (PBaseMessage zeroMetadata),
       Unmarshal ''notification'' (PNotificationMessage zeroNotification),
       Go 13 (PNotificationMessage (ex_notification ''channel.unknown'' ''{}'')),
       CallOnError 10 (CouldNotHandleNotification (UnknownSubscriptionType ''channel.unknown''))],
      Continue, ex_client, ex_world [])"
proof -
  have a: "subMetadata (ex_externals ''channel.unknown'' ''{}'')
       (ps_Type (nm_Subscription (ex_notification ''channel.unknown'' ''{}''))) = None"
    by (simp add: ex_externals_def ex_notification_def ex_subscription_def)
  have b: "MarshalJSON (ex_externals ''channel.unknown'' ''{}'')
       (nm_Event (ex_notification ''channel.unknown'' ''{}'')) = Inr ''{}''"
    by (simp add: ex_externals_def ex_notification_def)
  have c: "decodeBase (ex_externals ''channel.unknown'' ''{}'') ''notification'' =
       Inr (ex_metadata ''notification'')"
    by (simp add: ex_externals_def)
  have d: "MessageType (ex_metadata ''notification'') = ''notification''"
    by (simp add: ex_metadata_def)
  have e: "decodeNotification (ex_externals ''channel.unknown'' ''{}'') ''notification'' =
       Inr (ex_notification ''channel.unknown'' ''{}'')"
    by (simp add: ex_externals_def)
  have f: "onError ex_client = Some 10"
    by (simp add: ex_client_def)
  have g: "onNotification ex_client = Some 13"
    by (simp add: ex_client_def)
  have h: "ps_Type (nm_Subscription (ex_notification ''channel.unknown'' ''{}'')) = ''channel.unknown''"
    by (simp add: ex_notification_def ex_subscription_def)
  show ?thesis
    using unknown_subscription_type_reported [OF a b c d e f, of "ex_world []"] a g h
    by (simp add: callFunc_def)
qed

text \<open>
  C6 as stated fails on a client whose error sink has been cleared: the router returns its
  error, and the loop panics on the \<^verbatim>\<open>nil\<close> sink with nothing reported.
\<close>

theorem unknown_subscription_type_nil_sink_counterexample:
  "onError (ex_client\<lparr>onError := None\<rparr>) = None
   \<and> subMetadata (ex_externals ''channel.unknown'' ''{}'') ''channel.unknown'' = None
   \<and> loop_body (ex_externals ''channel.unknown'' ''{}'') (ex_client\<lparr>onError := None\<rparr>)
       (ex_world []) (Inr ''notification'') =
     ([Unmarshal ''notification'' (PBaseMessage zeroMetadata),
       Unmarshal ''notification'' (PNotificationMessage zeroNotification),
       Go 13 (PNotificationMessage (ex_notification ''channel.unknown'' ''{}''))],
      Crash, ex_client\<lparr>onError := None\<rparr>, ex_world [])"
  by (simp add: loop_body_def handleMessage_def parseBaseMessage_def callOnError_def
        ex_externals_def ex_metadata_def messageTypeMap_def Let_def decoded_def
        handleNotification_def ex_notification_def ex_subscription_def callFunc_def
        ex_client_def)

subsection \<open>Close\<close>

text \<open>
  C8, as the code has it. \<open>Close\<close> on a client that is not connected returns
  \<^verbatim>\<open>nil\<close>, asks nothing of any transport and leaves every field as it is except
  \<open>ws\<close>, which the deferred assignment clears; so nothing changes when \<open>ws\<close> is already
  \<^verbatim>\<open>nil\<close>. A second \<open>Close\<close> right after a first returns \<^verbatim>\<open>nil\<close> and changes neither
  the client nor the world. On a connected client with a transport, \<open>Close\<close> clears
  \<open>connected\<close> and \<open>ws\<close> and sends the transport one close request with the code of
  a normal closure.
\<close>

theorem Close_idempotent:
  "(\<not> connected c \<longrightarrow> Close c w = (Return None, c\<lparr>ws := None\<rparr>, w))
   \<and> (\<not> connected c \<and> ws c = None \<longrightarrow> Close c w = (Return None, c, w))
   \<and> (Close c w = (r, c', w') \<longrightarrow> Close c' w' = (Return None, c', w'))
   \<and> (connected c \<and> ws c = Some k \<longrightarrow>
        snd (Close c w) =
          (c\<lparr>connected := False, ws := None\<rparr>,
           snd (ws_Close w k StatusNormalClosure ''Stopping Connection''))
        \<and> closes (conns (snd (snd (Close c w))) k) = closes (conns w k) @ [(1000, ''Stopping Connection'')])"
proof -
  have a: "\<not> connected c \<longrightarrow> Close c w = (Return None, c\<lparr>ws := None\<rparr>, w)"
    by (simp add: Close_def)
  have b: "\<not> connected c \<and> ws c = None \<longrightarrow> Close c w = (Return None, c, w)"
    by (simp add: Close_def)
  have c: "Close c w = (r, c', w') \<longrightarrow> Close c' w' = (Return None, c', w')"
    by (auto simp: Close_def Let_def split: if_splits option.splits prod.splits)
  have d: "connected c \<and> ws c = Some k \<longrightarrow>
        snd (Close c w) =
          (c\<lparr>connected := False, ws := None\<rparr>,
           snd (ws_Close w k StatusNormalClosure ''Stopping Connection''))
        \<and> closes (conns (snd (snd (Close c w))) k) = closes (conns w k) @ [(1000, ''Stopping Connection'')]"
    by (auto simp: Close_def Let_def ws_Close_def StatusNormalClosure_def split: prod.splits)
  from a b c d show ?thesis by blast
qed

theorem Close_idempotent_witness:
  "connected ex_client \<and> ws ex_client = Some 0
   \<and> Close ex_client (ex_world []) =
       (Return None, ex_client\<lparr>connected := False, ws := None\<rparr>,
        snd (ws_Close (ex_world []) 0 StatusNormalClosure ''Stopping Connection''))
   \<and> Close (ex_client\<lparr>connected := False, ws := None\<rparr>)
        (snd (ws_Close (ex_world []) 0 StatusNormalClosure ''Stopping Connection'')) =
       (Return None, ex_client\<lparr>connected := False, ws := None\<rparr>,
        snd (ws_Close (ex_world []) 0 StatusNormalClosure ''Stopping Connection''))
   \<and> closes (conns (snd (snd (Close ex_client (ex_world [])))) 0) = [(1000, ''Stopping Connection'')]"
proof -
  have a: "connected ex_client \<and> ws ex_client = Some 0"
    by (simp add: ex_client_def)
  have b: "Close ex_client (ex_world []) =
       (Return None, ex_client\<lparr>connected := False, ws := None\<rparr>,
        snd (ws_Close (ex_world []) 0 StatusNormalClosure ''Stopping Connection''))"
    by (simp add: Close_def ex_client_def ex_world_def ex_transport_def ws_Close_def Let_def)
  have c: "closes (conns (ex_world []) 0) = []"
    by (simp add: ex_world_def ex_transport_def)
  show ?thesis
    using Close_idempotent
      [of ex_client "ex_world []" "Return None" "ex_client\<lparr>connected := False, ws := None\<rparr>"
          "snd (ws_Close (ex_world []) 0 StatusNormalClosure ''Stopping Connection'')" 0] a b c
    by simp
qed

text \<open>
  C8 as stated fails on a client that is not connected and still holds a transport:
  \<open>Close\<close> clears the reference.
\<close>

theorem Close_not_connected_counterexample:
  "\<not> connected (ex_client\<lparr>connected := False\<rparr>)
   \<and> ws (ex_client\<lparr>connected := False\<rparr>) = Some 0
   \<and> Close (ex_client\<lparr>connected := False\<rparr>) (ex_world []) =
       (Return None, ex_client\<lparr>connected := False, ws := None\<rparr>, ex_world [])
   \<and> ws (ex_client\<lparr>connected := False, ws := None\<rparr>) = None"
  by (simp add: Close_def ex_client_def)

subsection \<open>Connect\<close>

lemma loop_body_not_ErrNilOnWelcome:
  "fst (snd (loop_body x c w r)) \<noteq> Stop (Some ErrNilOnWelcome)"
  by (auto simp: loop_body_def callOnError_def
        split: sum.splits prod.splits outcome.splits option.splits)

lemma loop_body_not_ErrNilOnWelcomeD:
  "loop_body x c w r = (tr, Stop (Some ErrNilOnWelcome), c', w') \<Longrightarrow> False"
  using loop_body_not_ErrNilOnWelcome [of x c w r] by simp

lemma main_step_not_ErrNilOnWelcome:
  "main s \<noteq> Finished (Some ErrNilOnWelcome) \<Longrightarrow>
   main (main_step x s) \<noteq> Finished (Some ErrNilOnWelcome)"
  by (auto simp: main_step_def Let_def
        split: main_pc.splits option.splits prod.splits loop_next.splits
        dest: loop_body_not_ErrNilOnWelcomeD)

lemma task_step_not_ErrNilOnWelcome:
  "main s \<noteq> Finished (Some ErrNilOnWelcome) \<Longrightarrow>
   main (task_step x i s) \<noteq> Finished (Some ErrNilOnWelcome)"
  by (auto simp: task_step_def split: prod.splits task_pc.splits option.splits outcome.splits)

lemma step_not_ErrNilOnWelcome:
  "main s \<noteq> Finished (Some ErrNilOnWelcome) \<Longrightarrow>
   main (step x ch s) \<noteq> Finished (Some ErrNilOnWelcome)"
  by (cases ch) (simp_all add: step_def main_step_not_ErrNilOnWelcome task_step_not_ErrNilOnWelcome)

lemma run_not_ErrNilOnWelcome:
  "main s \<noteq> Finished (Some ErrNilOnWelcome) \<Longrightarrow>
   main (run x sched s) \<noteq> Finished (Some ErrNilOnWelcome)"
  by (induction sched arbitrary: s) (simp_all add: step_not_ErrNilOnWelcome)

text \<open>
  C7. On a client with no welcome handler \<open>ConnectWithContext\<close> returns
  \<open>ErrNilOnWelcome\<close> at once: nothing is dialed, nothing is logged, the client and the
  world are as they were. With a welcome handler set, whatever the schedule and the world,
  it never returns that error.
\<close>

theorem Connect_requires_onWelcome:
  "(onWelcome c = None \<longrightarrow>
      connectStart c w cx = ([], Some ErrNilOnWelcome, c, w)
      \<and> ConnectWithContext x c w cx sched =
          \<lparr>client = c, wld = w, main = Finished (Some ErrNilOnWelcome), tasks = [],
           crashed = False, log = []\<rparr>)
   \<and> (onWelcome c \<noteq> None \<longrightarrow>
        main (ConnectWithContext x c w cx sched) \<noteq> Finished (Some ErrNilOnWelcome))"
proof -
  have a: "onWelcome c = None \<longrightarrow>
      connectStart c w cx = ([], Some ErrNilOnWelcome, c, w)
      \<and> ConnectWithContext x c w cx sched =
          \<lparr>client = c, wld = w, main = Finished (Some ErrNilOnWelcome), tasks = [],
           crashed = False, log = []\<rparr>"
    by (simp add: connectStart_def ConnectWithContext_def)
  have b: "onWelcome c \<noteq> None \<longrightarrow>
        main (ConnectWithContext x c w cx sched) \<noteq> Finished (Some ErrNilOnWelcome)"
  proof
    assume h: "onWelcome c \<noteq> None"
    obtain tr e c' w' where cs: "connectStart c w cx = (tr, e, c', w')"
      by (cases "connectStart c w cx") auto
    show "main (ConnectWithContext x c w cx sched) \<noteq> Finished (Some ErrNilOnWelcome)"
    proof (cases e)
      case None
      then show ?thesis
        using cs by (simp add: ConnectWithContext_def run_not_ErrNilOnWelcome)
    next
      case (Some err)
      have "err \<noteq> ErrNilOnWelcome"
        using cs h Some
        by (auto simp: connectStart_def dial_def Let_def split: sum.splits)
      then show ?thesis
        using cs Some by (simp add: ConnectWithContext_def)
    qed
  qed
  from a b show ?thesis by blast
qed

theorem Connect_requires_onWelcome_witness:
  "onWelcome (ex_client\<lparr>onWelcome := None\<rparr>) = None
   \<and> main (ConnectWithContext (ex_externals ''channel.follow'' ''{}'')
        (ex_client\<lparr>onWelcome := None\<rparr>) (ex_world [Inl ex_closed]) 0 [Main, Main, Main]) =
      Finished (Some ErrNilOnWelcome)
   \<and> onWelcome ex_client = Some 11
   \<and> main (ConnectWithContext (ex_externals ''channel.follow'' ''{}'')
        ex_client (ex_world [Inl ex_closed]) 0 [Main, Main, Main]) = Finished None"
proof -
  have a: "onWelcome (ex_client\<lparr>onWelcome := None\<rparr>) = None"
    by simp
  have b: "onWelcome ex_client = Some 11"
    by (simp add: ex_client_def)
  have c: "main (ConnectWithContext (ex_externals ''channel.follow'' ''{}'')
        ex_client (ex_world [Inl ex_closed]) 0 [Main, Main, Main]) = Finished None"
    by (simp add: ConnectWithContext_def connectStart_def dial_def ex_client_def ex_world_def
          ex_transport_def step_def main_step_def ws_Read_def loop_body_def ex_closed_def
          CloseStatus_def StatusNormalClosure_def Let_def)
  show ?thesis
    using Connect_requires_onWelcome
      [of "ex_client\<lparr>onWelcome := None\<rparr>" "ex_world [Inl ex_closed]" 0
          "ex_externals ''channel.follow'' ''{}''" "[Main, Main, Main]"] a b c
    by simp
qed

subsection \<open>The reconnect handoff\<close>

lemma spawned_append [simp]: "spawned (a @ b) = spawned a @ spawned b"
  by (induction a rule: spawned.induct) simp_all

lemma swaps_append [simp]: "swaps (a @ b) = swaps a @ swaps b"
  by (induction a rule: swaps.induct) simp_all

lemma frames_read_append [simp]: "frames_read (a @ b) = frames_read a @ frames_read b"
  by (induction a rule: frames_read.induct) simp_all

lemma frames_after_swap_append:
  "frames_after_swap (a @ b) =
     (if swaps a = [] then frames_after_swap b else frames_after_swap a @ frames_read b)"
  by (induction a rule: frames_after_swap.induct) simp_all

lemma frames_before_swap_append:
  "frames_before_swap (a @ b) =
     (if swaps a = [] then frames_before_swap a @ frames_before_swap b
      else frames_before_swap a)"
  by (induction a rule: frames_before_swap.induct) simp_all

lemma frames_before_swap_Did [simp]: "frames_before_swap (map Did tr) = []"
  by (induction tr) simp_all

lemma frames_before_swap_snoc [simp]:
  "(\<forall>kd \<in> set (frames_before_swap (a @ b)). fst kd = old) \<longleftrightarrow>
     (\<forall>kd \<in> set (frames_before_swap a). fst kd = old) \<and>
     (swaps a = [] \<longrightarrow> (\<forall>kd \<in> set (frames_before_swap b). fst kd = old))"
  by (auto simp: frames_before_swap_append)

lemma frames_before_swap_MainRead [simp]:
  "\<forall>kd \<in> set (frames_before_swap [MainRead k r]). fst kd = k"
  by (cases r) simp_all

lemma frames_before_swap_subset: "set (frames_before_swap a) \<subseteq> set (frames_read a)"
  by (induction a rule: frames_before_swap.induct) auto

lemma swaps_Did [simp]: "swaps (map Did tr) = []"
  by (induction tr) simp_all

lemma frames_read_Did [simp]: "frames_read (map Did tr) = []"
  by (induction tr) simp_all

lemma frames_after_swap_Did [simp]: "frames_after_swap (map Did tr) = []"
  by (induction tr) simp_all

lemma frames_after_swap_unswapped: "swaps a = [] \<Longrightarrow> frames_after_swap a = []"
  by (induction a rule: frames_after_swap.induct) simp_all

lemma reconnect_keeps:
  "reconnect c w m = (tr, e, c', w') \<Longrightarrow>
     ws c' = ws c \<and> reconnecting c' = reconnecting c \<and> onError c' = onError c \<and>
     (spawned tr = [] \<longrightarrow> conns w' = conns w)"
  by (auto simp: reconnect_def dial_def Let_def split: sum.splits)

lemma dispatchMessage_keeps:
  "dispatchMessage x c w msg = (tr, r, c', w') \<Longrightarrow>
     ws c' = ws c \<and> reconnecting c' = reconnecting c \<and> onError c' = onError c \<and>
     (spawned tr = [] \<longrightarrow> conns w' = conns w)"
  by (cases msg)
     (auto split: prod.splits outcome.splits option.splits dest!: reconnect_keeps)

lemma handleMessage_keeps:
  "handleMessage x c w data = (tr, r, c', w') \<Longrightarrow>
     ws c' = ws c \<and> reconnecting c' = reconnecting c \<and> onError c' = onError c \<and>
     (spawned tr = [] \<longrightarrow> conns w' = conns w)"
  by (auto simp: handleMessage_def parseBaseMessage_def Let_def
        split: sum.splits option.splits prod.splits dest!: dispatchMessage_keeps)

lemma loop_body_keeps:
  "loop_body x c w r = (tr, nxt, c', w') \<Longrightarrow>
     ws c' = ws c \<and> onError c' = onError c \<and> (spawned tr = [] \<longrightarrow> conns w' = conns w)"
  by (auto simp: loop_body_def callOnError_def
        split: sum.splits option.splits prod.splits outcome.splits if_splits
        dest!: handleMessage_keeps)


lemma ws_Read_closes:
  "ws_Read w k = Some (r, w') \<Longrightarrow>
     closes (conns w' j) = closes (conns w j) \<and>
     (closes (conns w k) \<noteq> [] \<longrightarrow> r = Inl (after_close (conns w k)))"
  by (auto simp: ws_Read_def Let_def split: if_splits list.splits)

lemma main_step_inv:
  assumes "handoff_inv old new pc s"
    and "length (tasks (main_step x s)) = 1"
  shows "handoff_inv old new pc (main_step x s)"
proof (cases "main s")
  case AtTop
  then show ?thesis
    using assms(1) by (auto simp: handoff_inv_def main_step_def split: if_splits)
next
  case (Reading k)
  show ?thesis
  proof (cases "ws_Read (wld s) k")
    case None
    then show ?thesis using assms(1) Reading by (simp add: main_step_def)
  next
    case (Some a)
    obtain r w' where a: "a = (r, w')" by (cases a) auto
    have cl: "\<And>j. closes (conns w' j) = closes (conns (wld s) j)"
      using ws_Read_closes Some a by blast
    have er: "closes (conns (wld s) k) \<noteq> [] \<Longrightarrow> frames_read [MainRead k r] = []"
      using ws_Read_closes [of "wld s" k r w'] Some a by auto
    have st: "main_step x s = s\<lparr>wld := w', main := Got r, log := log s @ [MainRead k r]\<rparr>"
      using Reading Some a by (simp add: main_step_def)
    show ?thesis
    proof (cases "swaps (log s) = []")
      case True
      then show ?thesis
        using assms(1) Reading st cl by (simp add: handoff_inv_def)
    next
      case False
      then have k: "k = old \<or> k = new"
        using assms(1) Reading by (simp add: handoff_inv_def)
      have oc: "closes (conns (wld s) old) \<noteq> []"
        using assms(1) False by (simp add: handoff_inv_def)
      have fr: "\<forall>kd \<in> set (frames_read [MainRead k r]). fst kd = new"
      proof (cases "k = new")
        case True
        then show ?thesis by (cases r) simp_all
      next
        case False
        then have "k = old" using k by simp
        then show ?thesis using er oc by simp
      qed
      show ?thesis
        using assms(1) False Reading st cl fr
        by (auto simp: handoff_inv_def frames_after_swap_append)
    qed
  qed
next
  case (Got r)
  obtain tr nxt c' w' where lb: "loop_body x (client s) (wld s) r = (tr, nxt, c', w')"
    by (cases "loop_body x (client s) (wld s) r") auto
  have len: "length (tasks s) = 1"
    using assms(1) by (simp add: handoff_inv_def)
  have sp: "spawned tr = []"
    using assms(2) Got lb len
    by (cases nxt) (simp_all add: main_step_def Let_def)
  have keep: "ws c' = ws (client s)" "conns w' = conns (wld s)"
    using loop_body_keeps [OF lb] sp by simp_all
  show ?thesis
    using assms(1) Got lb sp keep
    by (cases nxt)
       (auto simp: handoff_inv_def main_step_def Let_def frames_after_swap_append)
next
  case Awaiting
  then show ?thesis using assms(1) by (simp add: main_step_def)
next
  case (Finished e)
  then show ?thesis using assms(1) by (simp add: main_step_def)
qed


lemma task_step_inv:
  assumes "handoff_inv old new pc s"
  shows "\<exists>pc'. handoff_inv old new pc' (task_step x 0 s)"
proof -
  have t: "tasks s = [(new, pc)]"
    using assms by (simp add: handoff_inv_def)
  show ?thesis
  proof (cases pc)
    case TRead
    then have un: "swaps (log s) = []"
      using assms by (auto simp: handoff_inv_def split: if_splits)
    show ?thesis
    proof (cases "ws_Read (wld s) new")
      case None
      then show ?thesis using assms t TRead by (auto simp: task_step_def)
    next
      case (Some a)
      obtain r w' where a: "a = (r, w')" by (cases a) auto
      have cl: "\<And>j. closes (conns w' j) = closes (conns (wld s) j)"
        using ws_Read_closes Some a by blast
      obtain tr res where aw: "awaitWelcome x (client s) r = (tr, res)"
        by (cases "awaitWelcome x (client s) r") auto
      show ?thesis
      proof (cases res)
        case Panic
        then have "handoff_inv old new TRead (task_step x 0 s)"
          using assms t TRead Some a aw un cl
          by (simp add: task_step_def handoff_inv_def)
        then show ?thesis by blast
      next
        case (Return go_on)
        then have "handoff_inv old new (if go_on then TSetFlag else TDone) (task_step x 0 s)"
          using assms t TRead Some a aw un cl
          by (simp add: task_step_def handoff_inv_def)
        then show ?thesis by blast
      qed
    qed
  next
    case TSetFlag
    then have "handoff_inv old new TClose (task_step x 0 s)"
      using assms t by (auto simp: task_step_def handoff_inv_def split: if_splits)
    then show ?thesis by blast
  next
    case TClose
    then have un: "swaps (log s) = []" and w: "ws (client s) = Some old"
      using assms by (auto simp: handoff_inv_def split: if_splits)
    have "handoff_inv old new TSwap (task_step x 0 s)"
      using assms t TClose un w
      by (simp add: task_step_def handoff_inv_def closeActive_def ws_Close_def Let_def)
    then show ?thesis by blast
  next
    case TSwap
    then have un: "swaps (log s) = []"
      using assms by (auto simp: handoff_inv_def split: if_splits)
    have "handoff_inv old new TSend (task_step x 0 s)"
      using assms t TSwap un
      by (auto simp: task_step_def handoff_inv_def frames_after_swap_append)
    then show ?thesis by blast
  next
    case TSend
    then have sw: "swaps (log s) \<noteq> []"
      using assms by (auto simp: handoff_inv_def split: if_splits)
    show ?thesis
    proof (cases "main s = Awaiting")
      case True
      then have "handoff_inv old new TDone (task_step x 0 s)"
        using assms t TSend sw
        by (auto simp: task_step_def handoff_inv_def frames_after_swap_append)
      then show ?thesis by blast
    next
      case False
      then show ?thesis using assms t TSend by (auto simp: task_step_def)
    qed
  next
    case TDone
    then show ?thesis using assms t by (auto simp: task_step_def)
  qed
qed

lemma tasks_step_mono: "length (tasks s) \<le> length (tasks (step x ch s))"
proof (cases ch)
  case Main
  show ?thesis
  proof (cases "main s")
    case (Got r)
    obtain tr nxt c' w' where lb: "loop_body x (client s) (wld s) r = (tr, nxt, c', w')"
      by (cases "loop_body x (client s) (wld s) r") auto
    show ?thesis
      using Main Got lb by (cases nxt) (simp_all add: step_def main_step_def Let_def)
  qed (use Main in \<open>auto simp: step_def main_step_def split: option.splits prod.splits\<close>)
next
  case (Task i)
  then show ?thesis
    by (auto simp: step_def task_step_def
          split: prod.splits task_pc.splits option.splits outcome.splits)
qed

lemma step_inv:
  assumes "handoff_inv old new pc s"
    and "length (tasks (step x ch s)) = 1"
  shows "\<exists>pc'. handoff_inv old new pc' (step x ch s)"
proof (cases "crashed s")
  case True
  then show ?thesis using assms(1) by (auto simp: step_def)
next
  case False
  have len: "length (tasks s) = 1"
    using assms(1) by (simp add: handoff_inv_def)
  show ?thesis
  proof (cases ch)
    case Main
    then show ?thesis
      using False assms main_step_inv [of old new pc s x] by (auto simp: step_def)
  next
    case (Task i)
    show ?thesis
    proof (cases "i = 0")
      case True
      then show ?thesis
        using False Task len assms(1) task_step_inv [of old new pc s x] by (simp add: step_def)
    next
      case False
      then show ?thesis
        using \<open>\<not> crashed s\<close> Task len assms(1) by (auto simp: step_def)
    qed
  qed
qed

lemma run_inv:
  "handoff_inv old new pc s \<Longrightarrow> length (tasks (run x sched s)) = 1 \<Longrightarrow>
   \<exists>pc'. handoff_inv old new pc' (run x sched s)"
proof (induction sched arbitrary: s pc)
  case Nil
  then show ?case by auto
next
  case (Cons ch sched)
  have mono: "\<And>t. length (tasks t) \<le> length (tasks (run x sched t))"
  proof -
    fix t show "length (tasks t) \<le> length (tasks (run x sched t))"
    proof (induction sched arbitrary: t)
      case Nil
      show ?case by simp
    next
      case (Cons c cs)
      show ?case
        using Cons [of "step x c t"] tasks_step_mono [of t x c] by simp
    qed
  qed
  have l0: "length (tasks s) = 1"
    using Cons.prems(1) by (simp add: handoff_inv_def)
  have "length (tasks (step x ch s)) \<le> 1"
    using mono [of "step x ch s"] Cons.prems(2) by simp
  then have l1: "length (tasks (step x ch s)) = 1"
    using tasks_step_mono [of s x ch] l0 by simp
  obtain pc' where "handoff_inv old new pc' (step x ch s)"
    using step_inv [OF Cons.prems(1) l1] by blast
  then show ?case
    using Cons.IH [of pc' "step x ch s"] Cons.prems(2) by simp
qed


lemma handoff_completes:
  assumes "tasks s0 = [(new, TRead)]"
    and "ws (client s0) = Some old"
    and "swaps (log s0) = []"
    and "\<not> crashed s0"
    and "ws_Read (wld s0) new = Some (Inr data, w1)"
    and "decodeBase x data = Inr md"
    and "MessageType md = ''session_welcome''"
  shows "swaps (log (run x [Task 0, Task 0, Task 0, Task 0] s0)) = [new]
         \<and> ws (client (run x [Task 0, Task 0, Task 0, Task 0] s0)) = Some new
         \<and> tasks (run x [Task 0, Task 0, Task 0, Task 0] s0) = [(new, TSend)]
         \<and> closes (conns (wld (run x [Task 0, Task 0, Task 0, Task 0] s0)) old) \<noteq> []"
proof -
  have aw: "awaitWelcome x (client s0) (Inr data) =
              ([Unmarshal data (PBaseMessage zeroMetadata)], Return True)"
    using assms(6,7) by (simp add: awaitWelcome_def parseBaseMessage_def)
  show ?thesis
    using assms(1-5) aw
    by (simp add: step_def task_step_def closeActive_def ws_Close_def Let_def)
qed

text \<open>
  C3. A loop on the transport \<open>old\<close> and the one goroutine of a handoff to \<open>new\<close>,
  under any schedule in which no second goroutine is started. Every frame the loop reads
  after the swap comes from \<open>new\<close> and every frame it reads before the swap from
  \<open>old\<close>. The active transport is \<open>old\<close> until the swap and
  \<open>new\<close> from then on: the swap is the one step that changes it, it happens at most once,
  and when it happens \<open>old\<close> has been asked to close. When the first frame on \<open>new\<close>
  is the welcome, four steps of the goroutine carry the handoff to the swap.
\<close>

theorem handoff_reads_from_new_transport:
  assumes "tasks s0 = [(new, TRead)]"
    and "ws (client s0) = Some old"
    and "swaps (log s0) = []"
    and "main s0 = AtTop"
    and "length (tasks (run x sched s0)) = 1"
    and "\<forall>kd \<in> set (frames_read (log s0)). fst kd = old"
  shows "(\<forall>kd \<in> set (frames_after_swap (log (run x sched s0))). fst kd = new)
         \<and> (\<forall>kd \<in> set (frames_before_swap (log (run x sched s0))). fst kd = old)
         \<and> ws (client (run x sched s0)) =
             (if swaps (log (run x sched s0)) = [] then Some old else Some new)
         \<and> (swaps (log (run x sched s0)) \<noteq> [] \<longrightarrow>
               swaps (log (run x sched s0)) = [new]
               \<and> closes (conns (wld (run x sched s0)) old) \<noteq> [])
         \<and> (\<not> crashed s0 \<and> ws_Read (wld s0) new = Some (Inr data, w1)
               \<and> decodeBase x data = Inr md \<and> MessageType md = ''session_welcome'' \<longrightarrow>
               swaps (log (run x [Task 0, Task 0, Task 0, Task 0] s0)) = [new]
               \<and> ws (client (run x [Task 0, Task 0, Task 0, Task 0] s0)) = Some new
               \<and> closes (conns (wld (run x [Task 0, Task 0, Task 0, Task 0] s0)) old) \<noteq> [])"
proof -
  have i0: "handoff_inv old new TRead s0"
    using assms(1-4,6) frames_before_swap_subset [of "log s0"]
    by (auto simp: handoff_inv_def)
  obtain pc where i: "handoff_inv old new pc (run x sched s0)"
    using run_inv [OF i0 assms(5)] by blast
  have a: "\<forall>kd \<in> set (frames_after_swap (log (run x sched s0))). fst kd = new"
    using i by (auto simp: handoff_inv_def frames_after_swap_unswapped split: if_splits)
  have a': "\<forall>kd \<in> set (frames_before_swap (log (run x sched s0))). fst kd = old"
    using i by (simp add: handoff_inv_def)
  have b: "ws (client (run x sched s0)) =
             (if swaps (log (run x sched s0)) = [] then Some old else Some new)"
    using i by (auto simp: handoff_inv_def split: if_splits)
  have c: "swaps (log (run x sched s0)) \<noteq> [] \<longrightarrow>
               swaps (log (run x sched s0)) = [new]
               \<and> closes (conns (wld (run x sched s0)) old) \<noteq> []"
    using i by (auto simp: handoff_inv_def split: if_splits)
  have d: "\<not> crashed s0 \<and> ws_Read (wld s0) new = Some (Inr data, w1)
               \<and> decodeBase x data = Inr md \<and> MessageType md = ''session_welcome'' \<longrightarrow>
               swaps (log (run x [Task 0, Task 0, Task 0, Task 0] s0)) = [new]
               \<and> ws (client (run x [Task 0, Task 0, Task 0, Task 0] s0)) = Some new
               \<and> closes (conns (wld (run x [Task 0, Task 0, Task 0, Task 0] s0)) old) \<noteq> []"
    using handoff_completes [OF assms(1-3), of data w1 x md] by blast
  from a a' b c d show ?thesis by blast
qed

theorem handoff_reads_from_new_transport_witness:
  "tasks ex_handoff_start = [(1, TRead)]
   \<and> ws (client ex_handoff_start) = Some 0
   \<and> length (tasks (run (ex_externals ''channel.follow'' ''{}'') ex_handoff_schedule
        ex_handoff_start)) = 1
   \<and> frames_read (log (run (ex_externals ''channel.follow'' ''{}'') ex_handoff_schedule
        ex_handoff_start)) = [(0, ''session_reconnect''), (1, ''notification'')]
   \<and> frames_after_swap (log (run (ex_externals ''channel.follow'' ''{}'') ex_handoff_schedule
        ex_handoff_start)) = [(1, ''notification'')]
   \<and> ws (client (run (ex_externals ''channel.follow'' ''{}'') ex_handoff_schedule
        ex_handoff_start)) = Some 1
   \<and> closes (conns (wld (run (ex_externals ''channel.follow'' ''{}'') ex_handoff_schedule
        ex_handoff_start)) 0) \<noteq> []"
proof -
  have a: "tasks ex_handoff_start = [(1, TRead)]"
    and b: "ws (client ex_handoff_start) = Some 0"
    and c: "swaps (log ex_handoff_start) = []"
    and d: "main ex_handoff_start = AtTop"
    by code_simp+
  have e: "length (tasks (run (ex_externals ''channel.follow'' ''{}'') ex_handoff_schedule
        ex_handoff_start)) = 1"
    by code_simp
  have e': "\<forall>kd \<in> set (frames_read (log ex_handoff_start)). fst kd = 0"
    by code_simp
  have f: "frames_read (log (run (ex_externals ''channel.follow'' ''{}'') ex_handoff_schedule
        ex_handoff_start)) = [(0, ''session_reconnect''), (1, ''notification'')]"
    and g: "frames_after_swap (log (run (ex_externals ''channel.follow'' ''{}'') ex_handoff_schedule
        ex_handoff_start)) = [(1, ''notification'')]"
    and h: "swaps (log (run (ex_externals ''channel.follow'' ''{}'') ex_handoff_schedule
        ex_handoff_start)) = [1]"
    by code_simp+
  show ?thesis
    using handoff_reads_from_new_transport [OF a b c d e e', of "''session_welcome''"
        "wld ex_handoff_start" "ex_metadata ''session_welcome''"] a b e f g h
    by simp
qed

lemma awaitWelcome_not_welcome:
  assumes "onError c = Some f"
  shows "decodeBase x data = Inl e \<Longrightarrow>
           awaitWelcome x c (Inr data) =
             ([Unmarshal data (PBaseMessage zeroMetadata),
               CallOnError f (ReconnectCouldNotParse (CouldNotUnmarshalBase (JsonError e))),
               CallOnError f (ReconnectNoWelcome [])], Return False)"
    and "decodeBase x data = Inr md \<Longrightarrow> MessageType md \<noteq> ''session_welcome'' \<Longrightarrow>
           awaitWelcome x c (Inr data) =
             ([Unmarshal data (PBaseMessage zeroMetadata),
               CallOnError f (ReconnectNoWelcome (MessageType md))], Return False)"
  using assms
  by (simp_all add: awaitWelcome_def parseBaseMessage_def callOnError_def zeroMetadata_def)


lemma ws_Read_other:
  "ws_Read w k = Some (r, w') \<Longrightarrow> j \<noteq> k \<Longrightarrow> conns w' j = conns w j"
  by (auto simp: ws_Read_def Let_def split: if_splits list.splits)

lemma main_step_abort_inv:
  assumes "abort_inv x old new f data cl pc s"
    and "old \<noteq> new"
    and "length (tasks (main_step x s)) = 1"
  shows "abort_inv x old new f data cl pc (main_step x s)"
proof (cases "main s")
  case AtTop
  then show ?thesis
    using assms(1) by (auto simp: abort_inv_def main_step_def split: if_splits)
next
  case (Reading k)
  then have k: "k = old"
    using assms(1) by (simp add: abort_inv_def)
  show ?thesis
  proof (cases "ws_Read (wld s) k")
    case None
    then show ?thesis using assms(1) Reading by (simp add: main_step_def)
  next
    case (Some a)
    obtain r w' where a: "a = (r, w')" by (cases a) auto
    have cl: "\<And>j. closes (conns w' j) = closes (conns (wld s) j)"
      using ws_Read_closes Some a by blast
    have nw: "conns w' new = conns (wld s) new"
      using ws_Read_other [of "wld s" k r w' new] Some a k assms(2) by simp
    have st: "main_step x s = s\<lparr>wld := w', main := Got r, log := log s @ [MainRead k r]\<rparr>"
      using Reading Some a by (simp add: main_step_def)
    show ?thesis
      using assms(1) st cl nw by (auto simp: abort_inv_def split: if_splits)
  qed
next
  case (Got r)
  obtain tr nxt c' w' where lb: "loop_body x (client s) (wld s) r = (tr, nxt, c', w')"
    by (cases "loop_body x (client s) (wld s) r") auto
  have len: "length (tasks s) = 1"
    using assms(1) by (simp add: abort_inv_def)
  have sp: "spawned tr = []"
    using assms(3) Got lb len
    by (cases nxt) (simp_all add: main_step_def Let_def)
  have keep: "ws c' = ws (client s)" "conns w' = conns (wld s)" "onError c' = onError (client s)"
    using loop_body_keeps [OF lb] sp by simp_all
  show ?thesis
    using assms(1) Got lb sp keep
    by (cases nxt) (auto simp: abort_inv_def main_step_def Let_def split: if_splits)
next
  case Awaiting
  then show ?thesis using assms(1) by (simp add: main_step_def)
next
  case (Finished e)
  then show ?thesis using assms(1) by (simp add: main_step_def)
qed

lemma task_step_abort_inv:
  assumes "abort_inv x old new f data cl pc s"
    and "old \<noteq> new"
    and "case decodeBase x data of Inl e \<Rightarrow> True | Inr md \<Rightarrow> MessageType md \<noteq> ''session_welcome''"
  shows "abort_inv x old new f data cl TDone (task_step x 0 s)"
proof (cases "pc = TRead")
  case True
  obtain rest where ib: "inbox (conns (wld s) new) = Inr data # rest"
    using assms(1) True by (cases "inbox (conns (wld s) new)") (auto simp: abort_inv_def)
  have nc: "closes (conns (wld s) new) = []"
    using assms(1) True by (simp add: abort_inv_def)
  have rd: "ws_Read (wld s) new =
      Some (Inr data, (wld s)\<lparr>conns := (conns (wld s))(new := (conns (wld s) new)\<lparr>inbox := rest\<rparr>)\<rparr>)"
    using ib nc by (simp add: ws_Read_def Let_def)
  have e: "onError (client s) = Some f"
    using assms(1) by (simp add: abort_inv_def)
  have aw: "\<exists>tr. awaitWelcome x (client s) (Inr data) = (tr, Return False) \<and>
      CallOnError f (ReconnectNoWelcome
        (case decodeBase x data of Inl e \<Rightarrow> [] | Inr md \<Rightarrow> MessageType md)) \<in> set tr"
    using assms(3) awaitWelcome_not_welcome [OF e, of x data]
    by (cases "decodeBase x data") auto
  then obtain tr where tr: "awaitWelcome x (client s) (Inr data) = (tr, Return False)"
    and rep: "CallOnError f (ReconnectNoWelcome
        (case decodeBase x data of Inl e \<Rightarrow> [] | Inr md \<Rightarrow> MessageType md)) \<in> set tr"
    by blast
  show ?thesis
    using assms(1,2) True rd tr rep
    by (auto simp: abort_inv_def task_step_def)
next
  case False
  then show ?thesis
    using assms(1) by (auto simp: abort_inv_def task_step_def split: if_splits)
qed


lemma step_abort_inv:
  assumes "abort_inv x old new f data cl pc s"
    and "old \<noteq> new"
    and "case decodeBase x data of Inl e \<Rightarrow> True | Inr md \<Rightarrow> MessageType md \<noteq> ''session_welcome''"
    and "length (tasks (step x ch s)) = 1"
  shows "\<exists>pc'. abort_inv x old new f data cl pc' (step x ch s)"
proof (cases "crashed s")
  case True
  then show ?thesis using assms(1) by (auto simp: step_def)
next
  case False
  have len: "length (tasks s) = 1"
    using assms(1) by (simp add: abort_inv_def)
  show ?thesis
  proof (cases ch)
    case Main
    then show ?thesis
      using False assms main_step_abort_inv [of x old new f data cl pc s] by (auto simp: step_def)
  next
    case (Task i)
    show ?thesis
    proof (cases "i = 0")
      case True
      then show ?thesis
        using False Task len task_step_abort_inv [OF assms(1-3)] by (auto simp: step_def)
    next
      case False
      then show ?thesis
        using \<open>\<not> crashed s\<close> Task len assms(1) by (auto simp: step_def)
    qed
  qed
qed

lemma tasks_run_mono: "length (tasks s) \<le> length (tasks (run x sched s))"
proof (induction sched arbitrary: s)
  case Nil
  show ?case by simp
next
  case (Cons ch sched)
  show ?case
    using Cons [of "step x ch s"] tasks_step_mono [of s x ch] by simp
qed

lemma run_abort_inv:
  assumes "old \<noteq> new"
    and "case decodeBase x data of Inl e \<Rightarrow> True | Inr md \<Rightarrow> MessageType md \<noteq> ''session_welcome''"
  shows "abort_inv x old new f data cl pc s \<Longrightarrow> length (tasks (run x sched s)) = 1 \<Longrightarrow>
         \<exists>pc'. abort_inv x old new f data cl pc' (run x sched s)"
proof (induction sched arbitrary: s pc)
  case Nil
  then show ?case by auto
next
  case (Cons ch sched)
  have l0: "length (tasks s) = 1"
    using Cons.prems(1) by (simp add: abort_inv_def)
  have "length (tasks (step x ch s)) \<le> 1"
    using tasks_run_mono [of "step x ch s" x sched] Cons.prems(2) by simp
  then have l1: "length (tasks (step x ch s)) = 1"
    using tasks_step_mono [of s x ch] l0 by simp
  obtain pc' where "abort_inv x old new f data cl pc' (step x ch s)"
    using step_abort_inv [OF Cons.prems(1) assms l1] by blast
  then show ?case
    using Cons.IH [of pc' "step x ch s"] Cons.prems(2) by simp
qed

text \<open>
  C2, as the code has it. The client has its error sink set, \<open>reconnect\<close> has dialed
  the transport \<open>dialed w\<close>, and the first frame read on it is not the welcome (it does
  not parse, or its message type is another). Run alone, the goroutine reports to the error
  sink that no welcome came and returns, leaving the client as \<open>reconnect\<close> left it,
  which is the client before the reconnect with the new address. Under any schedule of the
  loop and this goroutine in which no second goroutine is started, no swap happens, the
  active transport stays \<open>old\<close>, \<open>old\<close> receives no close request, and once the
  goroutine has moved the report is in the log.
\<close>

theorem reconnect_without_welcome_aborts:
  assumes "dial_answer w (dialed w) (rm_ReconnectUrl msg) = Inr t"
    and "inbox t = Inr data # rest"
    and "case decodeBase x data of Inl e \<Rightarrow> True | Inr md \<Rightarrow> MessageType md \<noteq> ''session_welcome''"
    and "onError c = Some f"
    and "ws c = Some old"
    and "old \<noteq> dialed w"
    and "c1 = c\<lparr>Address := rm_ReconnectUrl msg\<rparr>"
    and "w1 = w\<lparr>dialed := Suc (dialed w), conns := (conns w)(dialed w := t\<lparr>closes := []\<rparr>)\<rparr>"
    and "length (tasks (run x sched (handoff_start c1 w1 (dialed w) lg))) = 1"
    and "swaps lg = []"
  shows "reconnect c w msg =
           ([Dial (ctx c) (rm_ReconnectUrl msg), GoReconnect (dialed w)], None, c1, w1)
         \<and> (\<exists>tr w2.
               reconnectTask x c1 w1 (dialed w) = Some (tr, Return False, c1, w2)
               \<and> CallOnError f (ReconnectNoWelcome
                    (case decodeBase x data of Inl e \<Rightarrow> [] | Inr md \<Rightarrow> MessageType md)) \<in> set tr
               \<and> conns w2 old = conns w old)
         \<and> swaps (log (run x sched (handoff_start c1 w1 (dialed w) lg))) = []
         \<and> ws (client (run x sched (handoff_start c1 w1 (dialed w) lg))) = Some old
         \<and> closes (conns (wld (run x sched (handoff_start c1 w1 (dialed w) lg))) old) =
             closes (conns w old)
         \<and> (tasks (run x sched (handoff_start c1 w1 (dialed w) lg)) \<noteq> [(dialed w, TRead)] \<longrightarrow>
              Did (CallOnError f (ReconnectNoWelcome
                     (case decodeBase x data of Inl e \<Rightarrow> [] | Inr md \<Rightarrow> MessageType md)))
                \<in> set (log (run x sched (handoff_start c1 w1 (dialed w) lg))))"
proof -
  let ?s0 = "handoff_start c1 w1 (dialed w) lg"
  let ?ty = "case decodeBase x data of Inl e \<Rightarrow> [] | Inr md \<Rightarrow> MessageType md"
  have r: "reconnect c w msg =
           ([Dial (ctx c) (rm_ReconnectUrl msg), GoReconnect (dialed w)], None, c1, w1)"
    using assms(1,7,8) by (simp add: reconnect_def dial_def Let_def)
  have rd: "ws_Read w1 (dialed w) =
      Some (Inr data, w1\<lparr>conns := (conns w1)(dialed w := (conns w1 (dialed w))\<lparr>inbox := rest\<rparr>)\<rparr>)"
    using assms(2,8) by (simp add: ws_Read_def Let_def)
  have e: "onError c1 = Some f"
    using assms(4,7) by simp
  obtain tr where tr: "awaitWelcome x c1 (Inr data) = (tr, Return False)"
    and rep: "CallOnError f (ReconnectNoWelcome ?ty) \<in> set tr"
    using assms(3) awaitWelcome_not_welcome [OF e, of x data]
    by (cases "decodeBase x data") auto
  have t: "\<exists>tr w2. reconnectTask x c1 w1 (dialed w) = Some (tr, Return False, c1, w2)
             \<and> CallOnError f (ReconnectNoWelcome ?ty) \<in> set tr \<and> conns w2 old = conns w old"
    using rd tr rep assms(6,8) by (simp add: reconnectTask_def)
  have i0: "abort_inv x old (dialed w) f data (closes (conns w old)) TRead ?s0"
    using assms(2,4,5,6,7,8,10) by (simp add: abort_inv_def handoff_start_def)
  obtain pc where i: "abort_inv x old (dialed w) f data (closes (conns w old)) pc (run x sched ?s0)"
    using run_abort_inv [OF assms(6) assms(3) i0 assms(9)] by blast
  show ?thesis
    using r t i by (auto simp: abort_inv_def split: if_splits)
qed

theorem reconnect_without_welcome_aborts_witness:
  "reconnect ex_client (ex_world [Inr ''session_keepalive'']) ex_reconnect_message =
     ([Dial (Some 0) ''wss://next'', GoReconnect 1], None,
      ex_client\<lparr>Address := ''wss://next''\<rparr>,
      (ex_world [Inr ''session_keepalive''])
        \<lparr>dialed := 2, conns := (conns (ex_world [Inr ''session_keepalive'']))
                       (1 := ex_transport [Inr ''session_keepalive''])\<rparr>)
   \<and> ws (client (run (ex_externals ''channel.follow'' ''{}'') [Main, Task 0, Main, Task 0]
        (handoff_start (ex_client\<lparr>Address := ''wss://next''\<rparr>)
           ((ex_world [Inr ''session_keepalive''])
              \<lparr>dialed := 2, conns := (conns (ex_world [Inr ''session_keepalive'']))
                             (1 := ex_transport [Inr ''session_keepalive''])\<rparr>) 1 []))) = Some 0
   \<and> log (run (ex_externals ''channel.follow'' ''{}'') [Main, Task 0, Main, Task 0]
        (handoff_start (ex_client\<lparr>Address := ''wss://next''\<rparr>)
           ((ex_world [Inr ''session_keepalive''])
              \<lparr>dialed := 2, conns := (conns (ex_world [Inr ''session_keepalive'']))
                             (1 := ex_transport [Inr ''session_keepalive''])\<rparr>) 1 [])) =
       [TaskRead 1 (Inr ''session_keepalive''),
        Did (Unmarshal ''session_keepalive'' (PBaseMessage zeroMetadata)),
        Did (CallOnError 10 (ReconnectNoWelcome ''session_keepalive''))]"
proof -
  let ?w = "ex_world [Inr ''session_keepalive'']"
  let ?t = "ex_transport [Inr ''session_keepalive'']"
  let ?c1 = "ex_client\<lparr>Address := ''wss://next''\<rparr>"
  let ?w1 = "?w\<lparr>dialed := 2, conns := (conns ?w)(1 := ?t)\<rparr>"
  let ?x = "ex_externals ''channel.follow'' ''{}''"
  have a: "dial_answer ?w (dialed ?w) (rm_ReconnectUrl ex_reconnect_message) = Inr ?t"
    by (simp add: ex_world_def)
  have b: "inbox ?t = Inr ''session_keepalive'' # []"
    by (simp add: ex_transport_def)
  have c: "case decodeBase ?x ''session_keepalive'' of
             Inl e \<Rightarrow> True | Inr md \<Rightarrow> MessageType md \<noteq> ''session_welcome''"
    by (simp add: ex_externals_def ex_metadata_def)
  have d: "onError ex_client = Some 10" and e: "ws ex_client = Some 0"
    by (simp_all add: ex_client_def)
  have f: "0 \<noteq> dialed ?w"
    by (simp add: ex_world_def)
  have g: "?c1 = ex_client\<lparr>Address := rm_ReconnectUrl ex_reconnect_message\<rparr>"
    by (simp add: ex_reconnect_message_def)
  have h: "?w1 = ?w\<lparr>dialed := Suc (dialed ?w),
                     conns := (conns ?w)(dialed ?w := ?t\<lparr>closes := []\<rparr>)\<rparr>"
    by (simp add: ex_world_def ex_transport_def)
  have i: "length (tasks (run ?x [Main, Task 0, Main, Task 0]
             (handoff_start ?c1 ?w1 (dialed ?w) []))) = 1"
    by code_simp
  have j: "swaps ([] :: event list) = []"
    by simp
  have k: "dialed ?w = 1" and l: "ctx ex_client = Some 0"
    by (simp_all add: ex_world_def ex_client_def)
  have m: "log (run ?x [Main, Task 0, Main, Task 0] (handoff_start ?c1 ?w1 1 [])) =
       [TaskRead 1 (Inr ''session_keepalive''),
        Did (Unmarshal ''session_keepalive'' (PBaseMessage zeroMetadata)),
        Did (CallOnError 10 (ReconnectNoWelcome ''session_keepalive''))]"
    by code_simp
  show ?thesis
    using reconnect_without_welcome_aborts [OF a b c d e f g h i j] k l m
    by (simp add: ex_reconnect_message_def)
qed

text \<open>
  C2 as stated fails on a client whose error sink has been cleared: the goroutine calls the
  \<^verbatim>\<open>nil\<close> sink, and the program panics with nothing reported.
\<close>

theorem reconnect_without_welcome_nil_sink_counterexample:
  "onError (ex_client\<lparr>onError := None, Address := ''wss://next''\<rparr>) = None
   \<and> awaitWelcome (ex_externals ''channel.follow'' ''{}'')
       (ex_client\<lparr>onError := None, Address := ''wss://next''\<rparr>) (Inr ''session_keepalive'') =
     ([Unmarshal ''session_keepalive'' (PBaseMessage zeroMetadata)], Panic)
   \<and> crashed (run (ex_externals ''channel.follow'' ''{}'') [Task 0]
        (handoff_start (ex_client\<lparr>onError := None, Address := ''wss://next''\<rparr>)
           ((ex_world [Inr ''session_keepalive''])
              \<lparr>dialed := 2, conns := (conns (ex_world [Inr ''session_keepalive'']))
                             (1 := ex_transport [Inr ''session_keepalive''])\<rparr>) 1 []))
   \<and> log (run (ex_externals ''channel.follow'' ''{}'') [Task 0]
        (handoff_start (ex_client\<lparr>onError := None, Address := ''wss://next''\<rparr>)
           ((ex_world [Inr ''session_keepalive''])
              \<lparr>dialed := 2, conns := (conns (ex_world [Inr ''session_keepalive'']))
                             (1 := ex_transport [Inr ''session_keepalive''])\<rparr>) 1 [])) =
     [TaskRead 1 (Inr ''session_keepalive''),
      Did (Unmarshal ''session_keepalive'' (PBaseMessage zeroMetadata))]"
proof -
  have a: "onError (ex_client\<lparr>onError := None, Address := ''wss://next''\<rparr>) = None"
    by simp
  have b: "awaitWelcome (ex_externals ''channel.follow'' ''{}'')
       (ex_client\<lparr>onError := None, Address := ''wss://next''\<rparr>) (Inr ''session_keepalive'') =
     ([Unmarshal ''session_keepalive'' (PBaseMessage zeroMetadata)], Panic)"
    by (simp add: awaitWelcome_def parseBaseMessage_def callOnError_def ex_externals_def
          ex_metadata_def)
  have c: "crashed (run (ex_externals ''channel.follow'' ''{}'') [Task 0]
        (handoff_start (ex_client\<lparr>onError := None, Address := ''wss://next''\<rparr>)
           ((ex_world [Inr ''session_keepalive''])
              \<lparr>dialed := 2, conns := (conns (ex_world [Inr ''session_keepalive'']))
                             (1 := ex_transport [Inr ''session_keepalive''])\<rparr>) 1 []))"
    by code_simp
  have d: "log (run (ex_externals ''channel.follow'' ''{}'') [Task 0]
        (handoff_start (ex_client\<lparr>onError := None, Address := ''wss://next''\<rparr>)
           ((ex_world [Inr ''session_keepalive''])
              \<lparr>dialed := 2, conns := (conns (ex_world [Inr ''session_keepalive'']))
                             (1 := ex_transport [Inr ''session_keepalive''])\<rparr>) 1 [])) =
     [TaskRead 1 (Inr ''session_keepalive''),
      Did (Unmarshal ''session_keepalive'' (PBaseMessage zeroMetadata))]"
    by code_simp
  from a b c d show ?thesis by simp
qed

end
